theory Spec2Isabelle
  imports Complex_Main
begin

section \<open>Conventions\<close>

text \<open>
  The three core classes of the auto-scaling system are embedded here: the forecaster
  (\<^verbatim>\<open>predictor.py\<close>), the decision engine (\<^verbatim>\<open>scaling_engine.py\<close>) and the resource
  manager (\<^verbatim>\<open>resource_manager.py\<close>).

  \<^item> Python floats are idealised as \<^typ>\<open>real\<close>, Python ints are \<^typ>\<open>int\<close>. The
    one exception is \<^verbatim>\<open>get_scaling_recommendation\<close>, which compares a computed mean and a
    computed difference with its thresholds: there every float operation rounds its
    result (\<open>float_arith\<close> below).
  \<^item> An ISO timestamp is a \<^typ>\<open>real\<close>, the number of seconds on the wall clock;
    every call of \<^verbatim>\<open>datetime.now()\<close> is a parameter of the function that makes it.
  \<^item> A dictionary with a fixed set of keys is a record, and a key that the code reads
    with \<^verbatim>\<open>.get\<close> is an \<^typ>\<open>'a option\<close> field. Samples, recommendations, prior
    decisions and the resource state have the keys their producers write. The decision
    handed to the resource manager is any dictionary: each of its keys is optional, and
    reading a missing one raises \<open>KeyError\<close>. A resource dictionary is an association
    list.
  \<^item> An f-string is kept as its template and arguments (datatype \<open>reason\<close>); only integers
    are rendered to characters.
  \<^item> \<^verbatim>\<open>print\<close> and \<^verbatim>\<open>time.sleep\<close> return nothing. A checklist step of the resource
    manager consists of the two and stands for a provisioning call that may raise; which
    steps raise is a parameter of the manager's functions.
\<close>

text \<open>\<^verbatim>\<open>xs[-n:]\<close> for a positive constant \<open>n\<close>: the last \<open>n\<close> elements, all of them when
  there are fewer.\<close>

definition last_n :: "nat \<Rightarrow> 'a list \<Rightarrow> 'a list" where
  "last_n n xs = drop (length xs - n) xs"

text \<open>Python's \<^verbatim>\<open>max(0, min(100, x))\<close>.\<close>

definition bound_0_100 :: "real \<Rightarrow> real" where
  "bound_0_100 x = max 0 (min 100 x)"

text \<open>Python's \<^verbatim>\<open>max\<close> of a list: a left-to-right scan that keeps the first largest
  element. On the empty list Python raises; the code calls it on non-empty lists only.\<close>

fun py_max :: "real list \<Rightarrow> real" where
  "py_max (x # xs) = fold (\<lambda>y m. if m < y then y else m) xs x"

text \<open>The text of an integer, as an f-string renders it.\<close>

definition digit_char :: "nat \<Rightarrow> char" where
  "digit_char d = ''0123456789'' ! d"

fun decimal :: "nat \<Rightarrow> string" where
  "decimal n = (if 10 \<le> n then decimal (n div 10) @ [digit_char (n mod 10)] else [digit_char n])"

definition format_int :: "int \<Rightarrow> string" where
  "format_int k = (if 0 \<le> k then decimal (nat k) else CHR ''-'' # decimal (nat (- k)))"

text \<open>The exceptions the modelled code can meet.\<close>

datatype py_error = KeyError string | RuntimeError string

section \<open>Forecaster (\<^verbatim>\<open>predictor.py\<close>)\<close>

text \<open>A metric sample, as \<^verbatim>\<open>MetricsCollector.collect_metrics\<close> builds it.\<close>

record metric =
  timestamp :: real
  cpu_percent :: real
  memory_percent :: real
  memory_used_gb :: real
  disk_percent :: real
  network_bytes_sent :: int
  network_bytes_recv :: int
  response_time_ms :: real
  active_connections :: int
  load_score :: real

text \<open>
  One iteration of the prediction loop calls pandas, the fitted scaler and the fitted
  regression on the current window. These libraries are not part of the repository; what
  the loop can observe of them is one of four outcomes:
  \<^item> \<open>Frame_error\<close>: building the feature frame raised (lines 112-134, outside the inner
    \<^verbatim>\<open>try\<close>), so the outer handler takes over;
  \<^item> \<open>No_complete_row\<close>: \<^verbatim>\<open>dropna\<close> left no row (line 136);
  \<^item> \<open>Step_error\<close>: feature extraction, scaling or the regression raised inside the inner
    \<^verbatim>\<open>try\<close> (lines 142-154);
  \<^item> \<open>Predicted p\<close>: the regression returned \<open>p\<close>.
  The fitted model, its scaler and its feature schema are the function \<open>forecast\<close> of the
  predictor, from the window to the outcome.
\<close>

datatype step_outcome = Frame_error | No_complete_row | Step_error | Predicted real

record demand_predictor =
  is_trained :: bool
  forecast :: "metric list \<Rightarrow> step_outcome"

text \<open>\<^verbatim>\<open>_create_synthetic_metric\<close>: the timestamp advances by one minute.\<close>

definition create_synthetic_metric :: "metric \<Rightarrow> real \<Rightarrow> metric" where
  "create_synthetic_metric last_metric predicted_load =
     (let load_factor = predicted_load / 100 in
      last_metric\<lparr>timestamp := timestamp last_metric + 60,
                  load_score := predicted_load,
                  cpu_percent := min 100 (load_factor * 80),
                  memory_percent := min 100 (load_factor * 70),
                  response_time_ms := 50 + load_factor * 150\<rparr>)"

text \<open>\<^verbatim>\<open>_simple_trend_prediction\<close>.\<close>

definition simple_trend_prediction :: "metric list \<Rightarrow> int \<Rightarrow> real list" where
  "simple_trend_prediction recent_metrics horizon =
     (if length recent_metrics < 2 then replicate (nat horizon) 50
      else
        let loads = map load_score (last_n 10 recent_metrics);
            trend = (if length loads > 1 then (last loads - hd loads) / real (length loads) else 0);
            current_load = last loads
        in map (\<lambda>i. bound_0_100 (current_load + trend * (real i + 1))) [0..<nat horizon])"

text \<open>
  The loop \<^verbatim>\<open>for step in range(horizon)\<close> of \<^verbatim>\<open>predict_demand\<close>: \<open>n\<close> steps are left,
  \<open>last_metrics\<close> is the window, \<open>predictions\<close> the list built so far and \<open>current_load\<close>
  the value of \<^verbatim>\<open>recent_metrics[-1]['load_score']\<close>. The result \<open>None\<close> is an exception
  that reaches the outer handler. In the last case the prediction is appended before
  the synthetic sample is made from \<^verbatim>\<open>last_metrics[-1]\<close>; on an empty window that read
  raises inside the inner \<^verbatim>\<open>try\<close>, whose handler appends the current load as well. A
  sample of the window has all its keys, so making the synthetic sample from it does
  not raise.
\<close>

fun predict_steps ::
  "(metric list \<Rightarrow> step_outcome) \<Rightarrow> real \<Rightarrow> nat \<Rightarrow> metric list \<Rightarrow> real list \<Rightarrow> real list option"
where
  "predict_steps f current_load 0 last_metrics predictions = Some predictions"
| "predict_steps f current_load (Suc n) last_metrics predictions =
     (case f last_metrics of
        Frame_error \<Rightarrow> None
      | No_complete_row \<Rightarrow> predict_steps f current_load n last_metrics (predictions @ [current_load])
      | Step_error \<Rightarrow> predict_steps f current_load n last_metrics (predictions @ [current_load])
      | Predicted p \<Rightarrow>
          (let prediction = bound_0_100 p in
           if last_metrics = [] then
             predict_steps f current_load n last_metrics (predictions @ [prediction, current_load])
           else
             predict_steps f current_load n
               (last_metrics @ [create_synthetic_metric (last last_metrics) prediction])
               (predictions @ [prediction])))"

text \<open>\<^verbatim>\<open>predict_demand\<close>.\<close>

definition predict_demand :: "demand_predictor \<Rightarrow> metric list \<Rightarrow> int \<Rightarrow> real list" where
  "predict_demand self recent_metrics horizon =
     (if \<not> is_trained self \<or> length recent_metrics < 5 then
        (let current_load = (if recent_metrics \<noteq> [] then load_score (last recent_metrics) else 50)
         in replicate (nat horizon) current_load)
      else
        (case predict_steps (forecast self) (load_score (last recent_metrics)) (nat horizon)
                (last_n 15 recent_metrics) [] of
           Some predictions \<Rightarrow> predictions
         | None \<Rightarrow> simple_trend_prediction recent_metrics horizon))"

text \<open>The text of a reason: the template of the f-string and its arguments.\<close>

datatype reason =
    No_predictions_available
  | High_load_predicted real
  | Low_load_predicted real
  | Rising_trend_detected real
  | Declining_trend_detected real
  | Stable_load_predicted real
  | Cooldown_active string
  | Low_confidence real
  | Scaling_up_from int int reason
  | Scaling_down_from int int reason
  | Maintaining int reason
  | Rollback_of string real
  | Text string

text \<open>A recommendation. \<^verbatim>\<open>get_scaling_recommendation\<close> leaves the last three keys out
  when it has no predictions, and the engine reads them with \<^verbatim>\<open>.get\<close>.\<close>

record recommendation =
  r_action :: string
  r_confidence :: real
  r_reason :: reason
  r_predicted_load :: "real option"
  r_max_predicted_load :: "real option"
  r_trend :: "real option"

text \<open>
  The float arithmetic of \<^verbatim>\<open>get_scaling_recommendation\<close>. A binary64 subtraction or
  division returns the rounding of the exact result, and a float literal is the
  rounding of its decimal: \<open>rnd\<close> is that rounding. \<open>fsum\<close> is Python's \<^verbatim>\<open>sum\<close> of a list
  of floats, whose intermediate roundings depend on the interpreter. Comparisons and
  \<^verbatim>\<open>max\<close>, \<^verbatim>\<open>min\<close> are exact. Both are parameters: what is proved holds for every
  rounding and every sum.
\<close>

record float_arith =
  rnd :: "real \<Rightarrow> real"
  fsum :: "real list \<Rightarrow> real"

text \<open>\<^verbatim>\<open>get_scaling_recommendation\<close>.\<close>

definition get_scaling_recommendation :: "float_arith \<Rightarrow> real list \<Rightarrow> real \<Rightarrow> recommendation" where
  "get_scaling_recommendation fl predictions current_load =
     (if predictions = [] then
        \<lparr>r_action = ''maintain'', r_confidence = rnd fl (1/2), r_reason = No_predictions_available,
         r_predicted_load = None, r_max_predicted_load = None, r_trend = None\<rparr>
      else
        let avg_predicted_load = rnd fl (fsum fl predictions / real (length predictions));
            max_predicted_load = py_max predictions;
            trend = rnd fl (last predictions - current_load);
            (action, confidence, reason) =
              (if max_predicted_load > 80 then
                 (''scale_up'', min (rnd fl (9/10)) (rnd fl (rnd fl (max_predicted_load - 80) / 20)),
                  High_load_predicted max_predicted_load)
               else if avg_predicted_load < 30 \<and> current_load < 40 then
                 (''scale_down'', min (rnd fl (8/10)) (rnd fl (rnd fl (40 - avg_predicted_load) / 40)),
                  Low_load_predicted avg_predicted_load)
               else if trend > 15 then (''scale_up'', rnd fl (7/10), Rising_trend_detected trend)
               else if trend < - 15 then (''scale_down'', rnd fl (6/10), Declining_trend_detected trend)
               else (''maintain'', rnd fl (8/10), Stable_load_predicted avg_predicted_load))
        in \<lparr>r_action = action, r_confidence = confidence, r_reason = reason,
            r_predicted_load = Some avg_predicted_load,
            r_max_predicted_load = Some max_predicted_load,
            r_trend = Some trend\<rparr>)"

text \<open>
  The window and the value of step \<open>k\<close> of the loop, for stating what each step
  contributes: \<open>step_window\<close> is the window one step later, \<open>window_at f w k\<close> the window
  that step \<open>k\<close> sees when the loop starts from the non-empty window \<open>w\<close>.
\<close>

definition step_window :: "(metric list \<Rightarrow> step_outcome) \<Rightarrow> metric list \<Rightarrow> metric list" where
  "step_window f w =
     (case f w of
        Predicted p \<Rightarrow> w @ [create_synthetic_metric (last w) (bound_0_100 p)]
      | _ \<Rightarrow> w)"

fun window_at :: "(metric list \<Rightarrow> step_outcome) \<Rightarrow> metric list \<Rightarrow> nat \<Rightarrow> metric list" where
  "window_at f w 0 = w"
| "window_at f w (Suc k) = window_at f (step_window f w) k"

definition step_value :: "(metric list \<Rightarrow> step_outcome) \<Rightarrow> real \<Rightarrow> metric list \<Rightarrow> real" where
  "step_value f current_load w =
     (case f w of Predicted p \<Rightarrow> bound_0_100 p | _ \<Rightarrow> current_load)"

section \<open>Decision engine (\<^verbatim>\<open>scaling_engine.py\<close>)\<close>

record resource_limits =
  cpu_cores :: real
  memory_gb :: real
  storage_gb :: real

record config =
  min_instances :: int
  max_instances :: int
  scale_up_threshold :: real
  scale_down_threshold :: real
  scale_up_cooldown :: real
  scale_down_cooldown :: real
  confidence_threshold :: real
  resource_limits :: resource_limits

text \<open>The built-in defaults of \<^verbatim>\<open>_load_config\<close>.\<close>

definition default_config :: config where
  "default_config =
     \<lparr>min_instances = 1, max_instances = 10, scale_up_threshold = 70,
      scale_down_threshold = 30, scale_up_cooldown = 300, scale_down_cooldown = 600,
      confidence_threshold = 6/10,
      resource_limits = \<lparr>cpu_cores = 16, memory_gb = 32, storage_gb = 500\<rparr>\<rparr>"

text \<open>A resource dictionary: its keys in insertion order.\<close>

type_synonym resources = "(string \<times> real) list"

text \<open>The \<^verbatim>\<open>current_state\<close> argument of the engine; every key is read with \<^verbatim>\<open>.get\<close>.\<close>

record engine_state =
  cs_current_instances :: "int option"
  cs_load_score :: "real option"
  cs_current_resources :: "resources option"

text \<open>An element of \<^verbatim>\<open>recent_decisions\<close>: the two keys the cooldown scan reads.\<close>

record prior_decision =
  pd_timestamp :: real
  pd_action :: string

record cost_impact =
  current_hourly_cost :: real
  target_hourly_cost :: real
  hourly_cost_change :: real
  daily_cost_change :: real
  monthly_cost_change :: real

text \<open>
  A scaling decision. The engine builds it with a different set of keys on each of its
  three return paths, and the resource manager accepts any dictionary, so every key is
  optional.
\<close>

record scaling_decision =
  d_timestamp :: "real option"
  action :: "string option"
  reason :: "reason option"
  confidence :: "real option"
  d_current_instances :: "int option"
  recommended_instances :: "int option"
  d_current_resources :: "resources option"
  recommended_resources :: "resources option"
  d_predicted_load :: "real option"
  d_max_predicted_load :: "real option"
  cost_impact :: "cost_impact option"
  cooldown_remaining :: "real option"

text \<open>The dictionary \<^verbatim>\<open>_check_cooldown\<close> returns.\<close>

record cooldown_check =
  allowed :: bool
  cc_reason :: "string option"
  remaining_time :: "real option"

text \<open>The loop of \<^verbatim>\<open>_check_cooldown\<close> over \<^verbatim>\<open>reversed(recent_decisions[-10:])\<close>.\<close>

fun scan_cooldown :: "config \<Rightarrow> real \<Rightarrow> prior_decision list \<Rightarrow> cooldown_check" where
  "scan_cooldown cfg current_time [] =
     \<lparr>allowed = True, cc_reason = None, remaining_time = None\<rparr>"
| "scan_cooldown cfg current_time (decision # rest) =
     (let time_diff = current_time - pd_timestamp decision in
      if pd_action decision = ''scale_up'' then
        (if time_diff < scale_up_cooldown cfg then
           \<lparr>allowed = False, cc_reason = Some ''Scale-up cooldown active'',
            remaining_time = Some (scale_up_cooldown cfg - time_diff)\<rparr>
         else scan_cooldown cfg current_time rest)
      else if pd_action decision = ''scale_down'' then
        (if time_diff < scale_down_cooldown cfg then
           \<lparr>allowed = False, cc_reason = Some ''Scale-down cooldown active'',
            remaining_time = Some (scale_down_cooldown cfg - time_diff)\<rparr>
         else scan_cooldown cfg current_time rest)
      else scan_cooldown cfg current_time rest)"

text \<open>\<^verbatim>\<open>_check_cooldown\<close>; \<open>current_time\<close> is its reading of the clock.\<close>

definition check_cooldown :: "config \<Rightarrow> real \<Rightarrow> prior_decision list \<Rightarrow> cooldown_check" where
  "check_cooldown cfg current_time recent_decisions =
     (if recent_decisions = [] then \<lparr>allowed = True, cc_reason = None, remaining_time = None\<rparr>
      else scan_cooldown cfg current_time (rev (last_n 10 recent_decisions)))"

text \<open>Python's \<^verbatim>\<open>int(x)\<close> on a float: truncation towards zero.\<close>

definition py_int :: "real \<Rightarrow> int" where
  "py_int x = (if 0 \<le> x then \<lfloor>x\<rfloor> else \<lceil>x\<rceil>)"

text \<open>Python's \<^verbatim>\<open>round(x, 2)\<close>, on the idealised number: to the nearest hundredth,
  a tie to the even one.\<close>

definition round_half_even :: "real \<Rightarrow> int" where
  "round_half_even x =
     (let f = \<lfloor>x\<rfloor>; d = x - of_int f in
      if d < 1/2 then f else if 1/2 < d then f + 1 else if even f then f else f + 1)"

definition round2 :: "real \<Rightarrow> real" where
  "round2 x = of_int (round_half_even (x * 100)) / 100"

text \<open>\<^verbatim>\<open>_calculate_resource_allocation\<close>.\<close>

definition calculate_resource_allocation :: "config \<Rightarrow> int \<Rightarrow> real \<Rightarrow> resources" where
  "calculate_resource_allocation cfg instances predicted_load =
     (let load_factor = predicted_load / 100;
          base_cpu = 2;
          base_memory = 4;
          base_storage = 20;
          cpu_per_instance = base_cpu + load_factor * 2;
          memory_per_instance = base_memory + load_factor * 4;
          storage_per_instance = base_storage + load_factor * 10
      in [(''total_cpu_cores'',
             min (cpu_cores (resource_limits cfg)) (of_int instances * cpu_per_instance)),
          (''total_memory_gb'',
             min (memory_gb (resource_limits cfg)) (of_int instances * memory_per_instance)),
          (''total_storage_gb'',
             min (storage_gb (resource_limits cfg)) (of_int instances * storage_per_instance)),
          (''cpu_per_instance'', cpu_per_instance),
          (''memory_per_instance'', memory_per_instance),
          (''storage_per_instance'', storage_per_instance)])"

text \<open>\<^verbatim>\<open>_calculate_target_resources\<close>.\<close>

definition calculate_target_resources ::
  "config \<Rightarrow> engine_state \<Rightarrow> recommendation \<Rightarrow> int \<times> resources"
where
  "calculate_target_resources cfg current_state recommendation =
     (let current_instances = (case cs_current_instances current_state of Some n \<Rightarrow> n | None \<Rightarrow> 1);
          current_load = (case cs_load_score current_state of Some l \<Rightarrow> l | None \<Rightarrow> 50);
          predicted_load =
            (case r_max_predicted_load recommendation of Some l \<Rightarrow> l | None \<Rightarrow> current_load);
          target_instances =
            (if r_action recommendation = ''scale_up'' then
               (let load_factor = predicted_load / 100;
                    additional_instances = max 1 (py_int (load_factor * 2))
                in current_instances + additional_instances)
             else if r_action recommendation = ''scale_down'' then
               (if predicted_load < 20 then max 1 (current_instances - 2)
                else if predicted_load < 40 then max 1 (current_instances - 1)
                else current_instances)
             else current_instances)
      in (target_instances, calculate_resource_allocation cfg target_instances predicted_load))"

text \<open>\<^verbatim>\<open>_generate_decision_reason\<close>.\<close>

definition generate_decision_reason :: "recommendation \<Rightarrow> int \<Rightarrow> int \<Rightarrow> reason" where
  "generate_decision_reason recommendation target current =
     (let base_reason = r_reason recommendation in
      if target > current then Scaling_up_from current target base_reason
      else if target < current then Scaling_down_from current target base_reason
      else Maintaining current base_reason)"

text \<open>\<^verbatim>\<open>_estimate_cost_impact\<close>.\<close>

definition estimate_cost_impact :: "int \<Rightarrow> int \<Rightarrow> cost_impact" where
  "estimate_cost_impact current_instances target_instances =
     (let cost_per_instance_hour = 1/10;
          current_cost = of_int current_instances * cost_per_instance_hour;
          target_cost = of_int target_instances * cost_per_instance_hour;
          cost_change = target_cost - current_cost
      in \<lparr>current_hourly_cost = round2 current_cost,
          target_hourly_cost = round2 target_cost,
          hourly_cost_change = round2 cost_change,
          daily_cost_change = round2 (cost_change * 24),
          monthly_cost_change = round2 (cost_change * 24 * 30)\<rparr>)"

text \<open>
  \<^verbatim>\<open>make_scaling_decision\<close>. \<open>now\<close> is the clock as the function reads it for the
  decision's timestamp, \<open>current_time\<close> as \<^verbatim>\<open>_check_cooldown\<close> reads it;
  \<open>recent_decisions\<close> is \<open>None\<close> when the argument is left out.
\<close>

definition make_scaling_decision ::
  "config \<Rightarrow> real \<Rightarrow> real \<Rightarrow> engine_state \<Rightarrow> recommendation \<Rightarrow> prior_decision list option
     \<Rightarrow> scaling_decision"
where
  "make_scaling_decision cfg now current_time current_state recommendation recent_decisions =
     (let cooldown_check =
            check_cooldown cfg current_time
              (case recent_decisions of Some ds \<Rightarrow> ds | None \<Rightarrow> [])
      in
      if \<not> allowed cooldown_check then
        \<lparr>d_timestamp = Some now, action = Some ''maintain'',
         reason = Some (Cooldown_active (case cc_reason cooldown_check of Some t \<Rightarrow> t | None \<Rightarrow> [])),
         confidence = Some 1,
         d_current_instances = None,
         recommended_instances =
           Some (case cs_current_instances current_state of Some n \<Rightarrow> n | None \<Rightarrow> 1),
         d_current_resources = None,
         recommended_resources =
           Some (case cs_current_resources current_state of Some r \<Rightarrow> r | None \<Rightarrow> []),
         d_predicted_load = None, d_max_predicted_load = None, cost_impact = None,
         cooldown_remaining =
           Some (case remaining_time cooldown_check of Some t \<Rightarrow> t | None \<Rightarrow> 0)\<rparr>
      else if r_confidence recommendation < confidence_threshold cfg then
        \<lparr>d_timestamp = Some now, action = Some ''maintain'',
         reason = Some (Low_confidence (r_confidence recommendation)),
         confidence = Some (r_confidence recommendation),
         d_current_instances = None,
         recommended_instances =
           Some (case cs_current_instances current_state of Some n \<Rightarrow> n | None \<Rightarrow> 1),
         d_current_resources = None,
         recommended_resources =
           Some (case cs_current_resources current_state of Some r \<Rightarrow> r | None \<Rightarrow> []),
         d_predicted_load = None, d_max_predicted_load = None, cost_impact = None,
         cooldown_remaining = None\<rparr>
      else
        (let (target_instances0, target_resources) =
               calculate_target_resources cfg current_state recommendation;
             target_instances =
               max (min_instances cfg) (min (max_instances cfg) target_instances0);
             current_instances =
               (case cs_current_instances current_state of Some n \<Rightarrow> n | None \<Rightarrow> 1);
             act = (if target_instances > current_instances then ''scale_up''
                    else if target_instances < current_instances then ''scale_down''
                    else ''maintain'')
         in \<lparr>d_timestamp = Some now, action = Some act,
             reason = Some (generate_decision_reason recommendation target_instances current_instances),
             confidence = Some (r_confidence recommendation),
             d_current_instances = Some current_instances,
             recommended_instances = Some target_instances,
             d_current_resources =
               Some (case cs_current_resources current_state of Some r \<Rightarrow> r | None \<Rightarrow> []),
             recommended_resources = Some target_resources,
             d_predicted_load =
               Some (case r_predicted_load recommendation of Some l \<Rightarrow> l | None \<Rightarrow> 0),
             d_max_predicted_load =
               Some (case r_max_predicted_load recommendation of Some l \<Rightarrow> l | None \<Rightarrow> 0),
             cost_impact = Some (estimate_cost_impact current_instances target_instances),
             cooldown_remaining = None\<rparr>))"

section \<open>Resource manager (\<^verbatim>\<open>resource_manager.py\<close>)\<close>

record scaling_event =
  ev_timestamp :: real
  ev_action :: string
  instances_before :: int
  instances_after :: int
  ev_reason :: reason
  execution_time :: real

text \<open>The resource state, \<^verbatim>\<open>self.current_state\<close>.\<close>

record resource_state =
  instances :: int
  resources :: resources
  status :: string
  last_updated :: real
  scaling_events :: "scaling_event list"

text \<open>A provisioned instance has all five keys, a removed one only the first and the
  last.\<close>

record instance_descriptor =
  inst_id :: string
  inst_cpu_cores :: "real option"
  inst_memory_gb :: "real option"
  inst_storage_gb :: "real option"
  inst_status :: string

text \<open>The dictionary an operation returns; \<^verbatim>\<open>execution_result.update(result)\<close> copies its
  keys into the execution result.\<close>

record op_result =
  instances_added :: "int option"
  instances_removed :: "int option"
  new_total_instances :: "int option"
  provisioned_instances :: "instance_descriptor list option"
  removed_instances :: "instance_descriptor list option"
  instances_maintained :: "int option"
  optimization_applied :: "bool option"
  resource_allocation :: "resources option"

text \<open>The execution result. \<^verbatim>\<open>decision_id\<close>, the identity of the decision object in
  memory, is left out.\<close>

record execution_result = op_result +
  res_timestamp :: real
  res_action :: string
  res_status :: string
  execution_time_seconds :: real
  previous_state :: resource_state
  errors :: "py_error list"
  warnings :: "string list"

text \<open>The manager: its state, its history, and the content of the file named
  \<^verbatim>\<open>self.state_file\<close> (\<open>None\<close> while the file does not exist).\<close>

record resource_manager =
  current_state :: resource_state
  execution_history :: "execution_result list"
  state_file :: "resource_state option"

text \<open>Sequencing of steps that may raise, \<^verbatim>\<open>d[key]\<close> on an optional key, and
  \<^verbatim>\<open>d[key]\<close> on a resource dictionary.\<close>

definition bind_err :: "py_error + 'a \<Rightarrow> ('a \<Rightarrow> py_error + 'b) \<Rightarrow> py_error + 'b" where
  "bind_err m f = (case m of Inl e \<Rightarrow> Inl e | Inr x \<Rightarrow> f x)"

definition getitem :: "string \<Rightarrow> 'a option \<Rightarrow> py_error + 'a" where
  "getitem key v = (case v of None \<Rightarrow> Inl (KeyError key) | Some x \<Rightarrow> Inr x)"

definition getitem_res :: "resources \<Rightarrow> string \<Rightarrow> py_error + real" where
  "getitem_res d key = getitem key (map_of d key)"

text \<open>
  A checklist: each step prints a line and sleeps. The step stands for a provisioning
  call; \<open>raises step\<close> tells whether it raises.
\<close>

fun run_steps :: "(string \<Rightarrow> bool) \<Rightarrow> string list \<Rightarrow> py_error + unit" where
  "run_steps raises [] = Inr ()"
| "run_steps raises (step # rest) =
     (if raises step then Inl (RuntimeError step) else run_steps raises rest)"

definition provisioning_steps :: "string list" where
  "provisioning_steps =
     [''Requesting compute resources'', ''Allocating CPU and memory'', ''Setting up networking'',
      ''Installing application'', ''Running health checks'', ''Adding to load balancer'']"

definition shutdown_steps :: "string list" where
  "shutdown_steps =
     [''Draining connections'', ''Removing from load balancer'', ''Stopping application'',
      ''Backing up data'', ''Deallocating resources'']"

definition maintenance_checks :: "string list" where
  "maintenance_checks =
     [''Performing health checks'', ''Optimizing resource allocation'',
      ''Updating monitoring configuration'']"

text \<open>The body of the loop of \<^verbatim>\<open>_scale_up\<close> for index \<open>i\<close>, and the loop.
  \<open>fails instance_id step\<close> tells whether that step of that instance raises.\<close>

definition provision_instance ::
  "(string \<Rightarrow> string \<Rightarrow> bool) \<Rightarrow> scaling_decision \<Rightarrow> int \<Rightarrow> nat \<Rightarrow> py_error + instance_descriptor"
where
  "provision_instance fails decision current_instances i =
     (let instance_id = ''instance-'' @ format_int (current_instances + int i + 1) in
      bind_err (run_steps (fails instance_id) provisioning_steps) (\<lambda>_.
      bind_err (getitem ''recommended_resources'' (recommended_resources decision)) (\<lambda>res.
      bind_err (getitem_res res ''cpu_per_instance'') (\<lambda>cpu.
      bind_err (getitem_res res ''memory_per_instance'') (\<lambda>memory.
      bind_err (getitem_res res ''storage_per_instance'') (\<lambda>storage.
      Inr \<lparr>inst_id = instance_id, inst_cpu_cores = Some cpu, inst_memory_gb = Some memory,
           inst_storage_gb = Some storage, inst_status = ''active''\<rparr>))))))"

fun provision ::
  "(string \<Rightarrow> string \<Rightarrow> bool) \<Rightarrow> scaling_decision \<Rightarrow> int \<Rightarrow> nat list
     \<Rightarrow> py_error + instance_descriptor list"
where
  "provision fails decision current_instances [] = Inr []"
| "provision fails decision current_instances (i # rest) =
     (case provision_instance fails decision current_instances i of
        Inl e \<Rightarrow> Inl e
      | Inr d \<Rightarrow>
          (case provision fails decision current_instances rest of
             Inl e \<Rightarrow> Inl e
           | Inr ds \<Rightarrow> Inr (d # ds)))"

text \<open>\<^verbatim>\<open>_scale_up\<close>.\<close>

definition scale_up ::
  "(string \<Rightarrow> string \<Rightarrow> bool) \<Rightarrow> resource_manager \<Rightarrow> scaling_decision \<Rightarrow> py_error + op_result"
where
  "scale_up fails self decision =
     (let current_instances = instances (current_state self) in
      bind_err (getitem ''recommended_instances'' (recommended_instances decision)) (\<lambda>target_instances.
      let new_instances = target_instances - current_instances in
      bind_err (provision fails decision current_instances [0..<nat new_instances]) (\<lambda>provisioned.
      bind_err (getitem ''recommended_resources'' (recommended_resources decision)) (\<lambda>res.
      Inr \<lparr>instances_added = Some new_instances, instances_removed = None,
           new_total_instances = Some target_instances,
           provisioned_instances = Some provisioned, removed_instances = None,
           instances_maintained = None, optimization_applied = None,
           resource_allocation = Some res\<rparr>))))"

text \<open>The body of the loop of \<^verbatim>\<open>_scale_down\<close> for index \<open>i\<close>, and the loop.\<close>

definition remove_instance ::
  "(string \<Rightarrow> string \<Rightarrow> bool) \<Rightarrow> int \<Rightarrow> nat \<Rightarrow> py_error + instance_descriptor"
where
  "remove_instance fails current_instances i =
     (let instance_id = ''instance-'' @ format_int (current_instances - int i) in
      bind_err (run_steps (fails instance_id) shutdown_steps) (\<lambda>_.
      Inr \<lparr>inst_id = instance_id, inst_cpu_cores = None, inst_memory_gb = None,
           inst_storage_gb = None, inst_status = ''terminated''\<rparr>))"

fun deprovision ::
  "(string \<Rightarrow> string \<Rightarrow> bool) \<Rightarrow> int \<Rightarrow> nat list \<Rightarrow> py_error + instance_descriptor list"
where
  "deprovision fails current_instances [] = Inr []"
| "deprovision fails current_instances (i # rest) =
     (case remove_instance fails current_instances i of
        Inl e \<Rightarrow> Inl e
      | Inr d \<Rightarrow>
          (case deprovision fails current_instances rest of
             Inl e \<Rightarrow> Inl e
           | Inr ds \<Rightarrow> Inr (d # ds)))"

text \<open>\<^verbatim>\<open>_scale_down\<close>.\<close>

definition scale_down ::
  "(string \<Rightarrow> string \<Rightarrow> bool) \<Rightarrow> resource_manager \<Rightarrow> scaling_decision \<Rightarrow> py_error + op_result"
where
  "scale_down fails self decision =
     (let current_instances = instances (current_state self) in
      bind_err (getitem ''recommended_instances'' (recommended_instances decision)) (\<lambda>target_instances.
      let instances_to_remove = current_instances - target_instances in
      bind_err (deprovision fails current_instances [0..<nat instances_to_remove]) (\<lambda>removed.
      bind_err (getitem ''recommended_resources'' (recommended_resources decision)) (\<lambda>res.
      Inr \<lparr>instances_added = None, instances_removed = Some instances_to_remove,
           new_total_instances = Some target_instances,
           provisioned_instances = None, removed_instances = Some removed,
           instances_maintained = None, optimization_applied = None,
           resource_allocation = Some res\<rparr>))))"

text \<open>\<^verbatim>\<open>_maintain_resources\<close>; its checks belong to no instance.\<close>

definition maintain_resources ::
  "(string \<Rightarrow> string \<Rightarrow> bool) \<Rightarrow> resource_manager \<Rightarrow> scaling_decision \<Rightarrow> py_error + op_result"
where
  "maintain_resources fails self decision =
     bind_err (run_steps (fails []) maintenance_checks) (\<lambda>_.
     Inr \<lparr>instances_added = None, instances_removed = None, new_total_instances = None,
          provisioned_instances = None, removed_instances = None,
          instances_maintained = Some (instances (current_state self)),
          optimization_applied = Some True,
          resource_allocation = Some (resources (current_state self))\<rparr>)"

text \<open>\<^verbatim>\<open>_simulate_scaling_time\<close>.\<close>

definition simulate_scaling_time :: "string \<Rightarrow> real" where
  "simulate_scaling_time act =
     (if act = ''scale_up'' then 2 else if act = ''scale_down'' then 1 else 1/2)"

text \<open>
  Lines 214-216 of \<^verbatim>\<open>_update_state\<close>: the two assignments, one after the other. The
  state is returned as it stands when a key is missing.
\<close>

definition assign_target :: "resource_state \<Rightarrow> scaling_decision \<Rightarrow> resource_state \<times> py_error option" where
  "assign_target s decision =
     (case action decision of
        None \<Rightarrow> (s, Some (KeyError ''action''))
      | Some act \<Rightarrow>
          if act \<in> set [''scale_up'', ''scale_down''] then
            (case recommended_instances decision of
               None \<Rightarrow> (s, Some (KeyError ''recommended_instances''))
             | Some n \<Rightarrow>
                 (case recommended_resources decision of
                    None \<Rightarrow> (s\<lparr>instances := n\<rparr>, Some (KeyError ''recommended_resources''))
                  | Some r \<Rightarrow> (s\<lparr>instances := n, resources := r\<rparr>, None)))
          else (s, None))"

text \<open>
  \<^verbatim>\<open>_update_state\<close>. It returns the state as the call leaves it, and either the exception
  it raised or the execution result. \<^verbatim>\<open>previous_state\<close> is a shallow copy, so it shares
  its list of events with the state: the appended event shows in it, the later
  replacement of the list by its last 50 elements does not.
\<close>

definition update_state ::
  "resource_state \<Rightarrow> scaling_decision \<Rightarrow> execution_result
     \<Rightarrow> resource_state \<times> (py_error + execution_result)"
where
  "update_state s decision execution_result =
     (if res_status execution_result = ''completed'' then
        (case assign_target s decision of
           (s1, Some e) \<Rightarrow> (s1, Inl e)
         | (s1, None) \<Rightarrow>
             (case action decision of
                None \<Rightarrow> (s1, Inl (KeyError ''action''))
              | Some act \<Rightarrow>
                  (case reason decision of
                     None \<Rightarrow> (s1, Inl (KeyError ''reason''))
                   | Some why \<Rightarrow>
                       (let scaling_event =
                              \<lparr>ev_timestamp = res_timestamp execution_result,
                               ev_action = act,
                               instances_before = instances (previous_state execution_result),
                               instances_after = instances s1,
                               ev_reason = why,
                               execution_time = execution_time_seconds execution_result\<rparr>;
                            events = scaling_events s1 @ [scaling_event];
                            shared = execution_result
                              \<lparr>previous_state :=
                                 (previous_state execution_result)\<lparr>scaling_events := events\<rparr>\<rparr>
                        in (s1\<lparr>scaling_events :=
                                 (if length events > 50 then last_n 50 events else events)\<rparr>,
                            Inr shared)))))
      else (s, Inr execution_result))"

text \<open>\<^verbatim>\<open>execution_result.update(result)\<close>.\<close>

definition update_result :: "execution_result \<Rightarrow> op_result \<Rightarrow> execution_result" where
  "update_result execution_result result =
     execution_result
       \<lparr>instances_added := instances_added result,
        instances_removed := instances_removed result,
        new_total_instances := new_total_instances result,
        provisioned_instances := provisioned_instances result,
        removed_instances := removed_instances result,
        instances_maintained := instances_maintained result,
        optimization_applied := optimization_applied result,
        resource_allocation := resource_allocation result\<rparr>"

text \<open>\<^verbatim>\<open>_save_state\<close>; \<open>now\<close> is its reading of the clock.\<close>

definition save_state :: "real \<Rightarrow> resource_manager \<Rightarrow> resource_manager" where
  "save_state now self =
     (let s = (current_state self)\<lparr>last_updated := now\<rparr> in
      self\<lparr>current_state := s, state_file := Some s\<rparr>)"

text \<open>The dispatch on the action, lines 86-91 of \<^verbatim>\<open>execute_scaling_decision\<close>.\<close>

definition run_operation ::
  "(string \<Rightarrow> string \<Rightarrow> bool) \<Rightarrow> resource_manager \<Rightarrow> scaling_decision \<Rightarrow> string
     \<Rightarrow> py_error + op_result"
where
  "run_operation fails self decision act =
     (if act = ''scale_up'' then scale_up fails self decision
      else if act = ''scale_down'' then scale_down fails self decision
      else maintain_resources fails self decision)"

text \<open>
  \<^verbatim>\<open>execute_scaling_decision\<close>. \<open>now\<close> is the clock at entry, \<open>now_saved\<close> the clock when
  the state is saved. \<open>Inl\<close> is an exception that leaves the function: the read of
  \<^verbatim>\<open>decision['action']\<close> on line 72 stands before the \<^verbatim>\<open>try\<close>. The results kept in
  \<open>execution_history\<close> are the results as returned.
\<close>

definition execute_scaling_decision ::
  "(string \<Rightarrow> string \<Rightarrow> bool) \<Rightarrow> real \<Rightarrow> real \<Rightarrow> resource_manager \<Rightarrow> scaling_decision
     \<Rightarrow> py_error + execution_result \<times> resource_manager"
where
  "execute_scaling_decision fails now now_saved self decision =
     (case action decision of
        None \<Rightarrow> Inl (KeyError ''action'')
      | Some act \<Rightarrow>
          (let execution_time = simulate_scaling_time act;
               execution_result =
                 \<lparr>instances_added = None, instances_removed = None, new_total_instances = None,
                  provisioned_instances = None, removed_instances = None,
                  instances_maintained = None, optimization_applied = None,
                  resource_allocation = None,
                  res_timestamp = now, res_action = act, res_status = ''started'',
                  execution_time_seconds = execution_time,
                  previous_state = current_state self, errors = [], warnings = []\<rparr>;
               (s', execution_result') =
                 (case run_operation fails self decision act of
                    Inl e \<Rightarrow>
                      (current_state self,
                       execution_result\<lparr>res_status := ''failed'', errors := errors execution_result @ [e]\<rparr>)
                  | Inr result \<Rightarrow>
                      (let completed = (update_result execution_result result)\<lparr>res_status := ''completed''\<rparr>
                       in case update_state (current_state self) decision completed of
                            (s1, Inl e) \<Rightarrow>
                              (s1, completed\<lparr>res_status := ''failed'', errors := errors completed @ [e]\<rparr>)
                          | (s1, Inr shared) \<Rightarrow> (s1, shared)))
           in Inr (execution_result',
                   save_state now_saved
                     (self\<lparr>current_state := s',
                           execution_history := execution_history self @ [execution_result']\<rparr>))))"

text \<open>What \<^verbatim>\<open>rollback_last_scaling\<close> returns: the refusal (status and reason), or the
  result of the execution.\<close>

datatype rollback_result = Refused string string | Executed execution_result

text \<open>\<^verbatim>\<open>rollback_last_scaling\<close>.\<close>

definition rollback_last_scaling ::
  "(string \<Rightarrow> string \<Rightarrow> bool) \<Rightarrow> real \<Rightarrow> real \<Rightarrow> resource_manager
     \<Rightarrow> py_error + rollback_result \<times> resource_manager"
where
  "rollback_last_scaling fails now now_saved self =
     (if scaling_events (current_state self) = [] then
        Inr (Refused ''failed'' ''No scaling events to rollback'', self)
      else
        (let last_event = last (scaling_events (current_state self));
             rollback_decision =
               \<lparr>d_timestamp = None, action = Some ''rollback'',
                reason = Some (Rollback_of (ev_action last_event) (ev_timestamp last_event)),
                confidence = None, d_current_instances = None,
                recommended_instances = Some (instances_before last_event),
                d_current_resources = None, recommended_resources = Some [],
                d_predicted_load = None, d_max_predicted_load = None, cost_impact = None,
                cooldown_remaining = None\<rparr>
         in case execute_scaling_decision fails now now_saved self rollback_decision of
              Inl e \<Rightarrow> Inl e
            | Inr (r, self') \<Rightarrow> Inr (Executed r, self')))"

text \<open>The \<^verbatim>\<open>status\<close> key of what \<^verbatim>\<open>rollback_last_scaling\<close> returns.\<close>

definition rollback_status :: "rollback_result \<Rightarrow> string" where
  "rollback_status x = (case x of Refused st why \<Rightarrow> st | Executed r \<Rightarrow> res_status r)"

text \<open>A run of executions, one after the other, each with its two readings of the
  clock; it ends at the first exception that leaves \<open>execute_scaling_decision\<close>.\<close>

fun execute_all ::
  "(string \<Rightarrow> string \<Rightarrow> bool) \<Rightarrow> resource_manager \<Rightarrow> (real \<times> real \<times> scaling_decision) list
     \<Rightarrow> py_error + execution_result list \<times> resource_manager"
where
  "execute_all fails self [] = Inr ([], self)"
| "execute_all fails self ((now, now_saved, decision) # rest) =
     (case execute_scaling_decision fails now now_saved self decision of
        Inl e \<Rightarrow> Inl e
      | Inr (r, self') \<Rightarrow>
          (case execute_all fails self' rest of
             Inl e \<Rightarrow> Inl e
           | Inr (rs, self'') \<Rightarrow> Inr (r # rs, self'')))"

text \<open>The result and the state an execution ends with, \<open>None\<close> when it left with an
  exception.\<close>

definition result_after :: "py_error + 'a \<times> resource_manager \<Rightarrow> 'a option" where
  "result_after x = (case x of Inl e \<Rightarrow> None | Inr (r, self') \<Rightarrow> Some r)"

definition state_after :: "py_error + 'a \<times> resource_manager \<Rightarrow> resource_state option" where
  "state_after x = (case x of Inl e \<Rightarrow> None | Inr (r, self') \<Rightarrow> Some (current_state self'))"

text \<open>The content of the state file after an execution.\<close>

definition file_after :: "py_error + 'a \<times> resource_manager \<Rightarrow> resource_state option" where
  "file_after x = (case x of Inl e \<Rightarrow> None | Inr (r, self') \<Rightarrow> state_file self')"

section \<open>Concrete inputs\<close>

text \<open>A sample taken at time \<open>t\<close> with load score \<open>l\<close>, five samples one minute apart, and
  a trained predictor whose regression answers 120 while the last load of the window is
  below 50 and raises otherwise.\<close>

definition sample :: "real \<Rightarrow> real \<Rightarrow> metric" where
  "sample t l =
     \<lparr>timestamp = t, cpu_percent = l, memory_percent = l, memory_used_gb = 4,
      disk_percent = 50, network_bytes_sent = 0, network_bytes_recv = 0,
      response_time_ms = 100, active_connections = 100, load_score = l\<rparr>"

definition example_metrics :: "metric list" where
  "example_metrics = [sample 0 20, sample 60 30, sample 120 25, sample 180 35, sample 240 20]"

definition example_predictor :: demand_predictor where
  "example_predictor =
     \<lparr>is_trained = True,
      forecast = (\<lambda>w. if load_score (last w) < 50 then Predicted 120 else Step_error)\<rparr>"

text \<open>Two arithmetics: the exact one, and one that rounds to the nearest quarter, as
  coarse as binary64 is fine.\<close>

definition exact_arith :: float_arith where
  "exact_arith = \<lparr>rnd = (\<lambda>x. x), fsum = sum_list\<rparr>"

definition quarter_arith :: float_arith where
  "quarter_arith = \<lparr>rnd = (\<lambda>x. of_int (round (4 * x)) / 4), fsum = sum_list\<rparr>"

text \<open>A decision history for the cooldown scan, read at time 1000: a scale_down long
  past its cooldown, a scale_up 60 seconds old, and a maintain after it.\<close>

definition example_history :: "prior_decision list" where
  "example_history =
     [\<lparr>pd_timestamp = 0, pd_action = ''scale_down''\<rparr>,
      \<lparr>pd_timestamp = 940, pd_action = ''scale_up''\<rparr>,
      \<lparr>pd_timestamp = 970, pd_action = ''maintain''\<rparr>]"

text \<open>The state and the recommendation of the engine's own self-test, a host larger
  than the configured ceilings as \<^verbatim>\<open>_load_state\<close> reports it, a state with more
  instances than \<open>max_instances\<close>, and a recommendation below the confidence threshold.\<close>

definition example_engine_state :: engine_state where
  "example_engine_state =
     \<lparr>cs_current_instances = Some 2, cs_load_score = Some 75,
      cs_current_resources = Some [(''total_cpu_cores'', 4), (''total_memory_gb'', 8)]\<rparr>"

definition example_recommendation :: recommendation where
  "example_recommendation =
     \<lparr>r_action = ''scale_up'', r_confidence = 8/10, r_reason = Text ''High load predicted'',
      r_predicted_load = Some 85, r_max_predicted_load = Some 90, r_trend = None\<rparr>"

definition large_host_state :: engine_state where
  "large_host_state =
     \<lparr>cs_current_instances = Some 1, cs_load_score = Some 50,
      cs_current_resources =
        Some [(''total_cpu_cores'', 64), (''total_memory_gb'', 256), (''total_storage_gb'', 2000),
              (''cpu_per_instance'', 64), (''memory_per_instance'', 256),
              (''storage_per_instance'', 2000)]\<rparr>"

definition oversized_state :: engine_state where
  "oversized_state =
     \<lparr>cs_current_instances = Some 12, cs_load_score = Some 50, cs_current_resources = Some []\<rparr>"

definition weak_recommendation :: recommendation where
  "weak_recommendation =
     \<lparr>r_action = ''scale_up'', r_confidence = 1/2, r_reason = High_load_predicted 90,
      r_predicted_load = Some 90, r_max_predicted_load = Some 90, r_trend = Some 40\<rparr>"

text \<open>
  A manager with one instance and no events; the same after a scale-up from 1 to 3
  instances; the resource dictionary and the decision of the manager's own self-test
  (scale up to 3 instances); and a maintain decision as the test suite executes it.
\<close>

definition fresh_manager :: resource_manager where
  "fresh_manager =
     \<lparr>current_state =
        \<lparr>instances = 1,
         resources = [(''total_cpu_cores'', 4), (''total_memory_gb'', 8), (''total_storage_gb'', 100),
                      (''cpu_per_instance'', 4), (''memory_per_instance'', 8),
                      (''storage_per_instance'', 100)],
         status = ''active'', last_updated = 0, scaling_events = []\<rparr>,
      execution_history = [], state_file = None\<rparr>"

definition test_resources :: resources where
  "test_resources =
     [(''total_cpu_cores'', 6), (''total_memory_gb'', 12), (''total_storage_gb'', 60),
      (''cpu_per_instance'', 2), (''memory_per_instance'', 4), (''storage_per_instance'', 20)]"

definition scaled_manager :: resource_manager where
  "scaled_manager =
     \<lparr>current_state =
        \<lparr>instances = 3, resources = test_resources, status = ''active'', last_updated = 10,
         scaling_events =
           [\<lparr>ev_timestamp = 10, ev_action = ''scale_up'', instances_before = 1,
             instances_after = 3, ev_reason = Text ''Test scaling operation'',
             execution_time = 2\<rparr>]\<rparr>,
      execution_history = [], state_file = None\<rparr>"

definition test_decision :: scaling_decision where
  "test_decision =
     \<lparr>d_timestamp = None, action = Some ''scale_up'',
      reason = Some (Text ''Test scaling operation''), confidence = None,
      d_current_instances = None, recommended_instances = Some 3,
      d_current_resources = None, recommended_resources = Some test_resources,
      d_predicted_load = None, d_max_predicted_load = None, cost_impact = None,
      cooldown_remaining = None\<rparr>"

definition maintain_decision :: scaling_decision where
  "maintain_decision =
     test_decision\<lparr>action := Some ''maintain'', reason := Some (Text ''Test execution''),
                   recommended_instances := Some 1\<rparr>"

text \<open>The scale-down back to 1 instance, and a run of \<open>n\<close> executions that scales up to
  3 and down to 1 in turn, execution \<open>i\<close> entered at time \<open>i\<close>.\<close>

definition scale_down_decision :: scaling_decision where
  "scale_down_decision =
     test_decision\<lparr>action := Some ''scale_down'', recommended_instances := Some 1\<rparr>"

definition scaling_runs :: "nat \<Rightarrow> (real \<times> real \<times> scaling_decision) list" where
  "scaling_runs n =
     map (\<lambda>i. (real i, real i + 1/2, if even i then test_decision else scale_down_decision))
       [0..<n]"

text \<open>No step raises; and: installing the application on instance 3 raises.\<close>

definition no_faults :: "string \<Rightarrow> string \<Rightarrow> bool" where
  "no_faults instance_id step = False"

definition install_fails :: "string \<Rightarrow> string \<Rightarrow> bool" where
  "install_fails instance_id step =
     (instance_id = ''instance-3'' \<and> step = ''Installing application'')"

section \<open>Notions for stating the properties\<close>

text \<open>
  A prior decision is in cooldown at \<open>current_time\<close> when it is a scale_up younger than
  \<open>scale_up_cooldown\<close> seconds or a scale_down younger than \<open>scale_down_cooldown\<close> seconds;
  \<open>cooldown_of\<close> is the cooldown that applies to it.
\<close>

definition in_cooldown :: "config \<Rightarrow> real \<Rightarrow> prior_decision \<Rightarrow> bool" where
  "in_cooldown cfg current_time p =
     ((pd_action p = ''scale_up'' \<and> current_time - pd_timestamp p < scale_up_cooldown cfg)
      \<or> (pd_action p = ''scale_down'' \<and> current_time - pd_timestamp p < scale_down_cooldown cfg))"

definition cooldown_of :: "config \<Rightarrow> prior_decision \<Rightarrow> real" where
  "cooldown_of cfg p =
     (if pd_action p = ''scale_up'' then scale_up_cooldown cfg else scale_down_cooldown cfg)"

text \<open>
  What the two examples of the recommendation need of the arithmetic, and binary64 with
  Python's \<^verbatim>\<open>sum\<close> provides: rounding is monotone, it leaves the halves of the integers
  up to 1000 as they are, and the sum of five times 20 is 100.
\<close>

definition exact_on_halves :: "float_arith \<Rightarrow> bool" where
  "exact_on_halves fl =
     (mono (rnd fl)
      \<and> (\<forall>k::int. \<bar>k\<bar> \<le> 1000 \<longrightarrow> rnd fl (of_int k / 2) = of_int k / 2)
      \<and> fsum fl [20, 20, 20, 20, 20] = 100)"

text \<open>The results of a run that completed.\<close>

definition completed_results :: "execution_result list \<Rightarrow> execution_result list" where
  "completed_results rs = filter (\<lambda>r. res_status r = ''completed'') rs"

text \<open>The state after the two assignments of a scale_up or scale_down, the event a
  completed execution appends.\<close>

definition target_state :: "resource_state \<Rightarrow> scaling_decision \<Rightarrow> string \<Rightarrow> resource_state" where
  "target_state s d act =
     (if act = ''scale_up'' \<or> act = ''scale_down'' then
        (case (recommended_instances d, recommended_resources d) of
           (Some n, Some rs) \<Rightarrow> s\<lparr>instances := n, resources := rs\<rparr>
         | _ \<Rightarrow> s)
      else s)"

definition event_of :: "real \<Rightarrow> resource_state \<Rightarrow> scaling_decision \<Rightarrow> string \<Rightarrow> reason \<Rightarrow> scaling_event" where
  "event_of now s d act why =
     \<lparr>ev_timestamp = now, ev_action = act, instances_before = instances s,
      instances_after = instances (target_state s d act), ev_reason = why,
      execution_time = simulate_scaling_time act\<rparr>"

text \<open>A decision that carries every key the resource manager reads.\<close>

definition well_formed :: "scaling_decision \<Rightarrow> bool" where
  "well_formed d =
     (action d \<noteq> None \<and> reason d \<noteq> None \<and> recommended_instances d \<noteq> None
      \<and> (case recommended_resources d of
            None \<Rightarrow> False
          | Some rs \<Rightarrow>
              map_of rs ''cpu_per_instance'' \<noteq> None \<and> map_of rs ''memory_per_instance'' \<noteq> None
              \<and> map_of rs ''storage_per_instance'' \<noteq> None))"

section \<open>The forecaster's properties\<close>

lemma fold_max_eq: "fold (\<lambda>y m. if m < y then y else m) xs (x::real) = Max (set (x # xs))"
proof (induction xs arbitrary: x)
  case Nil
  then show ?case by simp
next
  case (Cons a xs)
  have "Max (insert (if x < a then a else x) (set xs)) = Max (insert x (insert a (set xs)))"
  proof (cases "set xs = {}")
    case True
    then show ?thesis by (auto simp: max_def)
  next
    case False
    then show ?thesis by (simp add: Max_insert max_def)
  qed
  with Cons show ?case by simp
qed

lemma py_max_eq_Max:
  assumes "predictions \<noteq> []"
  shows "py_max predictions = Max (set predictions)"
proof (cases predictions)
  case Nil
  with assms show ?thesis by simp
next
  case (Cons x xs)
  then show ?thesis by (simp only: py_max.simps fold_max_eq)
qed

lemma bound_0_100_range: "0 \<le> bound_0_100 x \<and> bound_0_100 x \<le> 100"
  by (simp add: bound_0_100_def)

lemma last_n_nonempty: "xs \<noteq> [] \<Longrightarrow> 0 < n \<Longrightarrow> last_n n xs \<noteq> []"
  by (cases xs) (auto simp add: last_n_def)

lemma step_window_nonempty: "w \<noteq> [] \<Longrightarrow> step_window f w \<noteq> []"
  by (simp add: step_window_def split: step_outcome.splits)

text \<open>Without a frame error the loop returns, step by step, the value of each step.\<close>

lemma predict_steps_values:
  assumes "w \<noteq> []" and "\<forall>k<n. f (window_at f w k) \<noteq> Frame_error"
  shows "predict_steps f c n w acc =
           Some (acc @ map (\<lambda>k. step_value f c (window_at f w k)) [0..<n])"
  using assms
proof (induction n arbitrary: w acc)
  case 0
  then show ?case by simp
next
  case (Suc n)
  have ne: "step_window f w \<noteq> []" using Suc.prems(1) by (rule step_window_nonempty)
  have later: "\<forall>k<n. f (window_at f (step_window f w) k) \<noteq> Frame_error"
    using Suc.prems(2) by auto
  have first: "f w \<noteq> Frame_error" using Suc.prems(2) by force
  have shift: "map (\<lambda>k. step_value f c (window_at f w k)) [0..<Suc n] =
      step_value f c w # map (\<lambda>k. step_value f c (window_at f (step_window f w) k)) [0..<n]"
    by (simp only: map_upt_Suc window_at.simps)
  show ?case
  proof (cases "f w")
    case Frame_error
    with first show ?thesis by simp
  next
    case No_complete_row
    then have sw: "step_window f w = w" by (simp add: step_window_def)
    from Suc.IH [OF ne later, of "acc @ [c]"] No_complete_row sw show ?thesis
      by (simp only: shift) (simp add: step_value_def)
  next
    case Step_error
    then have sw: "step_window f w = w" by (simp add: step_window_def)
    from Suc.IH [OF ne later, of "acc @ [c]"] Step_error sw show ?thesis
      by (simp only: shift) (simp add: step_value_def)
  next
    case (Predicted p)
    then have sw: "step_window f w = w @ [create_synthetic_metric (last w) (bound_0_100 p)]"
      by (simp add: step_window_def)
    from Suc.IH [OF ne later, of "acc @ [bound_0_100 p]"] Predicted sw Suc.prems(1) show ?thesis
      by (simp only: shift) (simp add: step_value_def Let_def)
  qed
qed

lemma predict_steps_length:
  "w \<noteq> [] \<Longrightarrow> predict_steps f c n w acc = Some r \<Longrightarrow> length r = length acc + n"
proof (induction n arbitrary: w acc)
  case 0
  then show ?case by simp
next
  case (Suc n)
  show ?case
  proof (cases "f w")
    case Frame_error
    with Suc.prems(2) show ?thesis by simp
  next
    case No_complete_row
    with Suc.prems have "predict_steps f c n w (acc @ [c]) = Some r" by simp
    from Suc.IH [OF Suc.prems(1) this] show ?thesis by simp
  next
    case Step_error
    with Suc.prems have "predict_steps f c n w (acc @ [c]) = Some r" by simp
    from Suc.IH [OF Suc.prems(1) this] show ?thesis by simp
  next
    case (Predicted p)
    with Suc.prems
    have "predict_steps f c n (w @ [create_synthetic_metric (last w) (bound_0_100 p)])
            (acc @ [bound_0_100 p]) = Some r" by (simp add: Let_def)
    from Suc.IH [OF _ this] show ?thesis by simp
  qed
qed

lemma predict_steps_range:
  "predict_steps f c n w acc = Some r \<Longrightarrow> 0 \<le> c \<Longrightarrow> c \<le> 100 \<Longrightarrow>
   \<forall>x\<in>set acc. 0 \<le> x \<and> x \<le> 100 \<Longrightarrow> \<forall>x\<in>set r. 0 \<le> x \<and> x \<le> 100"
proof (induction n arbitrary: w acc)
  case 0
  then show ?case by simp
next
  case (Suc n)
  show ?case
  proof (cases "f w")
    case Frame_error
    with Suc.prems(1) show ?thesis by simp
  next
    case No_complete_row
    with Suc.prems have "predict_steps f c n w (acc @ [c]) = Some r" by simp
    from Suc.IH [OF this] Suc.prems show ?thesis by simp
  next
    case Step_error
    with Suc.prems have "predict_steps f c n w (acc @ [c]) = Some r" by simp
    from Suc.IH [OF this] Suc.prems show ?thesis by simp
  next
    case (Predicted p)
    show ?thesis
    proof (cases "w = []")
      case True
      with Predicted Suc.prems(1)
      have "predict_steps f c n w (acc @ [bound_0_100 p, c]) = Some r" by (simp add: Let_def)
      from Suc.IH [OF this] Suc.prems bound_0_100_range [of p] show ?thesis by simp
    next
      case False
      with Predicted Suc.prems(1)
      have "predict_steps f c n (w @ [create_synthetic_metric (last w) (bound_0_100 p)])
              (acc @ [bound_0_100 p]) = Some r" by (simp add: Let_def)
      from Suc.IH [OF this] Suc.prems bound_0_100_range [of p] show ?thesis by simp
    qed
  qed
qed

lemma simple_trend_prediction_length: "length (simple_trend_prediction ms h) = nat h"
  by (simp add: simple_trend_prediction_def Let_def)

lemma simple_trend_prediction_range:
  "\<forall>x\<in>set (simple_trend_prediction ms h). 0 \<le> x \<and> x \<le> 100"
  using bound_0_100_range by (auto simp add: simple_trend_prediction_def Let_def)

text \<open>
  Claim C5. Whatever the fitted model answers, when every load score of the recent
  samples lies in [0,100], \<open>predict_demand\<close> returns exactly \<open>horizon\<close> values, each in
  [0,100]. For a trained model with at least 5 samples, as long as no step fails while
  building its frame, step \<open>k\<close> contributes the bounded prediction when the regression
  answers and the current load (the last recent load score) when the step fails or finds
  no complete row: a failing step costs that step only, the horizon keeps its length.
\<close>

theorem predict_demand_horizon_and_range:
  assumes "\<forall>m\<in>set recent_metrics. 0 \<le> load_score m \<and> load_score m \<le> 100"
  shows "length (predict_demand self recent_metrics horizon) = nat horizon
       \<and> (\<forall>x\<in>set (predict_demand self recent_metrics horizon). 0 \<le> x \<and> x \<le> 100)
       \<and> (is_trained self \<and> 5 \<le> length recent_metrics
            \<and> (\<forall>k<nat horizon.
                  forecast self (window_at (forecast self) (last_n 15 recent_metrics) k) \<noteq> Frame_error)
          \<longrightarrow> (\<forall>k<nat horizon.
                 predict_demand self recent_metrics horizon ! k =
                   (case forecast self (window_at (forecast self) (last_n 15 recent_metrics) k) of
                      Predicted p \<Rightarrow> bound_0_100 p
                    | _ \<Rightarrow> load_score (last recent_metrics))))"
proof (cases "\<not> is_trained self \<or> length recent_metrics < 5")
  case True
  have "0 \<le> load_score (last recent_metrics) \<and> load_score (last recent_metrics) \<le> 100"
    if "recent_metrics \<noteq> []"
    using that assms last_in_set by blast
  with True show ?thesis by (auto simp add: predict_demand_def)
next
  case False
  then have trained: "is_trained self" and len: "5 \<le> length recent_metrics" by auto
  then have ne: "recent_metrics \<noteq> []" by auto
  let ?f = "forecast self" and ?c = "load_score (last recent_metrics)"
  let ?w = "last_n 15 recent_metrics"
  have wne: "?w \<noteq> []" using ne by (simp add: last_n_nonempty)
  have c: "0 \<le> ?c" "?c \<le> 100" using ne assms last_in_set by blast+
  have pd: "predict_demand self recent_metrics horizon =
      (case predict_steps ?f ?c (nat horizon) ?w [] of
         Some predictions \<Rightarrow> predictions
       | None \<Rightarrow> simple_trend_prediction recent_metrics horizon)"
    using False by (simp add: predict_demand_def)
  have len_ok: "length (predict_demand self recent_metrics horizon) = nat horizon"
  proof (cases "predict_steps ?f ?c (nat horizon) ?w []")
    case None
    with pd show ?thesis by (simp add: simple_trend_prediction_length)
  next
    case (Some r)
    with pd predict_steps_length [OF wne Some] show ?thesis by simp
  qed
  have range_ok: "\<forall>x\<in>set (predict_demand self recent_metrics horizon). 0 \<le> x \<and> x \<le> 100"
  proof (cases "predict_steps ?f ?c (nat horizon) ?w []")
    case None
    with pd show ?thesis by (simp add: simple_trend_prediction_range)
  next
    case (Some r)
    from predict_steps_range [OF Some c] have "\<forall>x\<in>set r. 0 \<le> x \<and> x \<le> 100" by simp
    with pd Some show ?thesis by simp
  qed
  have steps_ok: "\<forall>k<nat horizon.
        predict_demand self recent_metrics horizon ! k =
          (case ?f (window_at ?f ?w k) of Predicted p \<Rightarrow> bound_0_100 p | _ \<Rightarrow> ?c)"
    if nf: "\<forall>k<nat horizon. ?f (window_at ?f ?w k) \<noteq> Frame_error"
  proof -
    from predict_steps_values [OF wne nf, of ?c "[]"] pd
    have "predict_demand self recent_metrics horizon =
        map (\<lambda>k. step_value ?f ?c (window_at ?f ?w k)) [0..<nat horizon]" by simp
    then show ?thesis by (simp add: step_value_def)
  qed
  from len_ok range_ok steps_ok show ?thesis by blast
qed

text \<open>The theorem at the five samples and the predictor above, for a horizon of 3: the
  first step is predicted (120, bounded to 100), the second fails and contributes the
  current load 20.\<close>

theorem predict_demand_horizon_and_range_witness:
  "list_all (\<lambda>m. 0 \<le> load_score m \<and> load_score m \<le> 100) example_metrics
   \<and> is_trained example_predictor \<and> 5 \<le> length example_metrics
   \<and> length (predict_demand example_predictor example_metrics 3) = 3
   \<and> list_all (\<lambda>x. 0 \<le> x \<and> x \<le> 100) (predict_demand example_predictor example_metrics 3)
   \<and> predict_demand example_predictor example_metrics 3 ! 0 = 100
   \<and> predict_demand example_predictor example_metrics 3 ! 1 = 20"
proof -
  have h: "\<forall>m\<in>set example_metrics. 0 \<le> load_score m \<and> load_score m \<le> 100"
    by (simp add: example_metrics_def sample_def)
  have t: "is_trained example_predictor" "5 \<le> length example_metrics"
    by (simp_all add: example_predictor_def example_metrics_def)
  have nf: "\<forall>k<nat 3. forecast example_predictor
              (window_at (forecast example_predictor) (last_n 15 example_metrics) k) \<noteq> Frame_error"
    by (simp add: example_predictor_def)
  have w0: "window_at (forecast example_predictor) (last_n 15 example_metrics) 0 = example_metrics"
    by (simp add: last_n_def example_metrics_def)
  have w1: "load_score (last (window_at (forecast example_predictor) (last_n 15 example_metrics) 1)) = 100"
    by (simp add: last_n_def example_metrics_def example_predictor_def sample_def
        step_window_def create_synthetic_metric_def bound_0_100_def)
  have l: "load_score (last example_metrics) = 20"
    by (simp add: example_metrics_def sample_def)
  note inst = predict_demand_horizon_and_range [OF h, of example_predictor 3]
  from inst t nf have "\<forall>k<nat 3. predict_demand example_predictor example_metrics 3 ! k =
      (case forecast example_predictor
              (window_at (forecast example_predictor) (last_n 15 example_metrics) k) of
         Predicted p \<Rightarrow> bound_0_100 p
       | _ \<Rightarrow> load_score (last example_metrics))"
    by blast
  then have k0: "predict_demand example_predictor example_metrics 3 ! 0 = 100"
    and k1: "predict_demand example_predictor example_metrics 3 ! 1 = 20"
    using w0 w1 l by (simp_all add: example_predictor_def bound_0_100_def)
  from inst h t k0 k1 show ?thesis by (simp add: list_all_iff)
qed

text \<open>
  Claim C6. On a non-empty list of predictions \<open>get_scaling_recommendation\<close> applies the
  ladder in this order, on the mean and the trend as the code computes them (the
  rounded quotient of Python's sum by the length, the rounded difference of the last
  prediction and the current load): the largest prediction above 80 gives scale_up with
  confidence min(0.9, (max - 80)/20); else a mean below 30 with a current load below 40
  gives scale_down with confidence min(0.8, (40 - mean)/40); else a trend above 15 gives
  scale_up with confidence 0.7; else a trend below -15 gives scale_down with confidence
  0.6; else maintain with confidence 0.8. The constants are the floats of these
  literals, and each difference and quotient is rounded. This holds for every rounding
  and every sum. Under an arithmetic that is exact where binary64 is, five predictions
  of 90 with current load 50 give scale_up with confidence 0.5, and five of 20 with
  current load 25 give scale_down with confidence 0.5.
\<close>

theorem get_scaling_recommendation_ladder:
  assumes "predictions \<noteq> []"
  shows "r_action (get_scaling_recommendation fl predictions current_load) =
           (if Max (set predictions) > 80 then ''scale_up''
            else if rnd fl (fsum fl predictions / real (length predictions)) < 30
                    \<and> current_load < 40
              then ''scale_down''
            else if rnd fl (last predictions - current_load) > 15 then ''scale_up''
            else if rnd fl (last predictions - current_load) < - 15 then ''scale_down''
            else ''maintain'')
       \<and> r_confidence (get_scaling_recommendation fl predictions current_load) =
           (if Max (set predictions) > 80
              then min (rnd fl (9/10)) (rnd fl (rnd fl (Max (set predictions) - 80) / 20))
            else if rnd fl (fsum fl predictions / real (length predictions)) < 30
                    \<and> current_load < 40
              then min (rnd fl (8/10))
                     (rnd fl (rnd fl (40 - rnd fl (fsum fl predictions / real (length predictions))) / 40))
            else if rnd fl (last predictions - current_load) > 15 then rnd fl (7/10)
            else if rnd fl (last predictions - current_load) < - 15 then rnd fl (6/10)
            else rnd fl (8/10))
       \<and> (exact_on_halves fl \<longrightarrow>
            r_action (get_scaling_recommendation fl [90, 90, 90, 90, 90] 50) = ''scale_up''
          \<and> r_confidence (get_scaling_recommendation fl [90, 90, 90, 90, 90] 50) = 1/2
          \<and> r_action (get_scaling_recommendation fl [20, 20, 20, 20, 20] 25) = ''scale_down''
          \<and> r_confidence (get_scaling_recommendation fl [20, 20, 20, 20, 20] 25) = 1/2)"
proof -
  have ladder: "r_action (get_scaling_recommendation fl ps c) =
           (if Max (set ps) > 80 then ''scale_up''
            else if rnd fl (fsum fl ps / real (length ps)) < 30 \<and> c < 40 then ''scale_down''
            else if rnd fl (last ps - c) > 15 then ''scale_up''
            else if rnd fl (last ps - c) < - 15 then ''scale_down''
            else ''maintain'')
       \<and> r_confidence (get_scaling_recommendation fl ps c) =
           (if Max (set ps) > 80
              then min (rnd fl (9/10)) (rnd fl (rnd fl (Max (set ps) - 80) / 20))
            else if rnd fl (fsum fl ps / real (length ps)) < 30 \<and> c < 40
              then min (rnd fl (8/10))
                     (rnd fl (rnd fl (40 - rnd fl (fsum fl ps / real (length ps))) / 40))
            else if rnd fl (last ps - c) > 15 then rnd fl (7/10)
            else if rnd fl (last ps - c) < - 15 then rnd fl (6/10)
            else rnd fl (8/10))" if "ps \<noteq> []" for ps c
    using that py_max_eq_Max [OF that]
    by (simp add: get_scaling_recommendation_def Let_def del: py_max.simps)
  have examples:
    "r_action (get_scaling_recommendation fl [90, 90, 90, 90, 90] 50) = ''scale_up''
     \<and> r_confidence (get_scaling_recommendation fl [90, 90, 90, 90, 90] 50) = 1/2
     \<and> r_action (get_scaling_recommendation fl [20, 20, 20, 20, 20] 25) = ''scale_down''
     \<and> r_confidence (get_scaling_recommendation fl [20, 20, 20, 20, 20] 25) = 1/2"
    if ex: "exact_on_halves fl"
  proof -
    from ex have m: "mono (rnd fl)"
      and halves: "\<And>k::int. \<bar>k\<bar> \<le> 1000 \<Longrightarrow> rnd fl (of_int k / 2) = of_int k / 2"
      and sum20: "fsum fl [20, 20, 20, 20, 20] = 100"
      by (simp_all add: exact_on_halves_def)
    from halves [of 1] have half: "rnd fl (1/2) = 1/2" by simp
    from halves [of 20] have ten: "rnd fl 10 = 10" by simp
    from halves [of 40] have twenty: "rnd fl 20 = 20" by simp
    from m have "rnd fl (1/2) \<le> rnd fl (9/10)" by (rule monoD) simp
    with half have nine: "1/2 \<le> rnd fl (9/10)" by simp
    from m have "rnd fl (1/2) \<le> rnd fl (8/10)" by (rule monoD) simp
    with half have eight: "1/2 \<le> rnd fl (8/10)" by simp
    have a: "r_action (get_scaling_recommendation fl [90, 90, 90, 90, 90] 50) = ''scale_up''"
      "r_confidence (get_scaling_recommendation fl [90, 90, 90, 90, 90] 50) = 1/2"
      using half ten nine by (simp_all add: get_scaling_recommendation_def min_def)
    have b: "r_action (get_scaling_recommendation fl [20, 20, 20, 20, 20] 25) = ''scale_down''"
      "r_confidence (get_scaling_recommendation fl [20, 20, 20, 20, 20] 25) = 1/2"
      using half twenty eight sum20 by (simp_all add: get_scaling_recommendation_def min_def)
    from a b show ?thesis by blast
  qed
  from ladder [OF assms] examples show ?thesis by blast
qed

text \<open>
  The ladder under rounding to quarters, at the predictions 60, 29.9, 0 with current
  load 10: the exact mean is below 30, the computed mean is 30, so the second rung does
  not answer and the last one does. And the two examples under exact arithmetic.
\<close>

theorem get_scaling_recommendation_ladder_witness:
  "[60, 299/10, 0] \<noteq> ([] :: real list)
   \<and> sum_list [60, 299/10, 0] / 3 < (30 :: real)
   \<and> rnd quarter_arith (fsum quarter_arith [60, 299/10, 0] / 3) = 30
   \<and> r_action (get_scaling_recommendation quarter_arith [60, 299/10, 0] 10) = ''maintain''
   \<and> r_confidence (get_scaling_recommendation quarter_arith [60, 299/10, 0] 10)
        = rnd quarter_arith (8/10)
   \<and> exact_on_halves exact_arith
   \<and> r_action (get_scaling_recommendation exact_arith [90, 90, 90, 90, 90] 50) = ''scale_up''
   \<and> r_confidence (get_scaling_recommendation exact_arith [90, 90, 90, 90, 90] 50) = 1/2
   \<and> r_action (get_scaling_recommendation exact_arith [20, 20, 20, 20, 20] 25) = ''scale_down''
   \<and> r_confidence (get_scaling_recommendation exact_arith [20, 20, 20, 20, 20] 25) = 1/2"
proof -
  have ne: "[60, 299/10, 0] \<noteq> ([] :: real list)" by simp
  have exact: "sum_list [60, 299/10, 0] / 3 < (30 :: real)" by simp
  have r: "round (4 * ((60 + 299/10 + 0) / 3) :: real) = 120"
    and t: "round (4 * (0 - 10) :: real) = - 40"
    by (simp_all add: round_def)
  have mean: "rnd quarter_arith (fsum quarter_arith [60, 299/10, 0] / 3) = 30"
    using r by (simp add: quarter_arith_def)
  have trend: "rnd quarter_arith (last [60, 299/10, 0] - 10) = - 10"
    using t by (simp add: quarter_arith_def)
  have mx: "Max (set [60, 299/10, 0 :: real]) = 60" by simp
  have ex: "exact_on_halves exact_arith"
    by (simp add: exact_on_halves_def exact_arith_def mono_def)
  from get_scaling_recommendation_ladder [OF ne, of quarter_arith 10] mean trend mx
  have q: "r_action (get_scaling_recommendation quarter_arith [60, 299/10, 0] 10) = ''maintain''
     \<and> r_confidence (get_scaling_recommendation quarter_arith [60, 299/10, 0] 10)
          = rnd quarter_arith (8/10)"
    by simp
  from get_scaling_recommendation_ladder [OF ne, of exact_arith 10] ex
  have e: "r_action (get_scaling_recommendation exact_arith [90, 90, 90, 90, 90] 50) = ''scale_up''
     \<and> r_confidence (get_scaling_recommendation exact_arith [90, 90, 90, 90, 90] 50) = 1/2
     \<and> r_action (get_scaling_recommendation exact_arith [20, 20, 20, 20, 20] 25) = ''scale_down''
     \<and> r_confidence (get_scaling_recommendation exact_arith [20, 20, 20, 20, 20] 25) = 1/2"
    by blast
  from ne exact mean q ex e show ?thesis by blast
qed

text \<open>
  Claim C9. On a non-empty list of recent samples, an untrained predictor, or any
  predictor given fewer than 5 samples, returns the last observed load score repeated
  \<open>horizon\<close> times (no element for a horizon below 1).
\<close>

theorem predict_demand_fallback:
  assumes "recent_metrics \<noteq> []"
    and "\<not> is_trained self \<or> length recent_metrics < 5"
  shows "predict_demand self recent_metrics horizon =
           replicate (nat horizon) (load_score (last recent_metrics))"
  using assms by (auto simp add: predict_demand_def)

text \<open>The fallback at four of the samples above: the trained predictor repeats the
  load of the last one.\<close>

theorem predict_demand_fallback_witness:
  "butlast example_metrics \<noteq> []
   \<and> length (butlast example_metrics) < 5
   \<and> predict_demand example_predictor (butlast example_metrics) 3 = [35, 35, 35]"
proof -
  have ne: "butlast example_metrics \<noteq> []" by (simp add: example_metrics_def)
  have short: "\<not> is_trained example_predictor \<or> length (butlast example_metrics) < 5"
    by (simp add: example_metrics_def)
  have l: "load_score (last (butlast example_metrics)) = 35"
    by (simp add: example_metrics_def sample_def)
  have r: "replicate (nat 3) (35::real) = [35, 35, 35]"
    by (simp add: numeral_3_eq_3)
  from predict_demand_fallback [OF ne short, of 3] ne short l r show ?thesis
    by (simp add: example_metrics_def)
qed

section \<open>The decision engine's properties\<close>

text \<open>The scan returns the verdict of the first decision in cooldown, if there is one.\<close>

lemma scan_cooldown_find:
  "scan_cooldown cfg t ds =
     (case find (in_cooldown cfg t) ds of
        None \<Rightarrow> \<lparr>allowed = True, cc_reason = None, remaining_time = None\<rparr>
      | Some p \<Rightarrow>
          \<lparr>allowed = False,
           cc_reason = Some (if pd_action p = ''scale_up'' then ''Scale-up cooldown active''
                             else ''Scale-down cooldown active''),
           remaining_time = Some (cooldown_of cfg p - (t - pd_timestamp p))\<rparr>)"
  by (induction ds) (auto simp add: in_cooldown_def cooldown_of_def Let_def)

lemma last_n_idem: "last_n n (last_n n xs) = last_n n xs"
  by (simp add: last_n_def)

lemma check_cooldown_find:
  "check_cooldown cfg t ds =
     (case find (in_cooldown cfg t) (rev (last_n 10 ds)) of
        None \<Rightarrow> \<lparr>allowed = True, cc_reason = None, remaining_time = None\<rparr>
      | Some p \<Rightarrow>
          \<lparr>allowed = False,
           cc_reason = Some (if pd_action p = ''scale_up'' then ''Scale-up cooldown active''
                             else ''Scale-down cooldown active''),
           remaining_time = Some (cooldown_of cfg p - (t - pd_timestamp p))\<rparr>)"
  by (simp add: check_cooldown_def scan_cooldown_find last_n_def)

text \<open>
  Claim C4. The cooldown gate looks at the 10 most recent prior decisions only, the most
  recent first, and the first one in cooldown decides: when \<open>p\<close> is that decision, the
  gate refuses and \<open>make_scaling_decision\<close> returns maintain with \<open>cooldown_remaining\<close> equal
  to the cooldown of \<open>p\<close> minus the time elapsed since \<open>p\<close>; any decision in cooldown
  among the 10 makes the answer maintain. When none of the 10 is in cooldown the gate
  allows the action: the decision is the one made without any history, it reports no
  remaining cooldown and its reason is no cooldown; below the confidence threshold it is
  the confidence veto, and from the threshold on its instance count is the sized target
  within the limits and its action follows from comparing that count with the current
  one. A scale_up 60 seconds old under the default \<open>scale_up_cooldown\<close> of 300 gives
  maintain with 240 seconds remaining; a scale_up 400 seconds old lets the self-test
  recommendation through as a scale_up to 3 instances.
\<close>

theorem cooldown_gate:
  "(find (in_cooldown cfg t) (rev (last_n 10 ds)) = Some p \<longrightarrow>
      \<not> allowed (check_cooldown cfg t ds)
      \<and> remaining_time (check_cooldown cfg t ds) = Some (cooldown_of cfg p - (t - pd_timestamp p))
      \<and> action (make_scaling_decision cfg now t cs rec (Some ds)) = Some ''maintain''
      \<and> cooldown_remaining (make_scaling_decision cfg now t cs rec (Some ds)) =
           Some (cooldown_of cfg p - (t - pd_timestamp p)))
   \<and> (q \<in> set (last_n 10 ds) \<and> in_cooldown cfg t q \<longrightarrow>
      action (make_scaling_decision cfg now t cs rec (Some ds)) = Some ''maintain'')
   \<and> (find (in_cooldown cfg t) (rev (last_n 10 ds)) = None \<longrightarrow>
      allowed (check_cooldown cfg t ds)
      \<and> make_scaling_decision cfg now t cs rec (Some ds) = make_scaling_decision cfg now t cs rec None
      \<and> cooldown_remaining (make_scaling_decision cfg now t cs rec (Some ds)) = None
      \<and> reason (make_scaling_decision cfg now t cs rec (Some ds)) \<noteq> Some (Cooldown_active why)
      \<and> (r_confidence rec < confidence_threshold cfg \<longrightarrow>
            action (make_scaling_decision cfg now t cs rec (Some ds)) = Some ''maintain''
          \<and> reason (make_scaling_decision cfg now t cs rec (Some ds)) =
               Some (Low_confidence (r_confidence rec)))
      \<and> (confidence_threshold cfg \<le> r_confidence rec \<longrightarrow>
            recommended_instances (make_scaling_decision cfg now t cs rec (Some ds)) =
              Some (max (min_instances cfg)
                     (min (max_instances cfg) (fst (calculate_target_resources cfg cs rec))))
          \<and> action (make_scaling_decision cfg now t cs rec (Some ds)) =
              Some (if max (min_instances cfg)
                         (min (max_instances cfg) (fst (calculate_target_resources cfg cs rec)))
                       > (case cs_current_instances cs of Some n \<Rightarrow> n | None \<Rightarrow> 1)
                    then ''scale_up''
                    else if max (min_instances cfg)
                         (min (max_instances cfg) (fst (calculate_target_resources cfg cs rec)))
                       < (case cs_current_instances cs of Some n \<Rightarrow> n | None \<Rightarrow> 1)
                    then ''scale_down'' else ''maintain'')))
   \<and> check_cooldown cfg t ds = check_cooldown cfg t (last_n 10 ds)
   \<and> action (make_scaling_decision default_config now t cs rec
               (Some [\<lparr>pd_timestamp = t - 60, pd_action = ''scale_up''\<rparr>])) = Some ''maintain''
   \<and> cooldown_remaining (make_scaling_decision default_config now t cs rec
               (Some [\<lparr>pd_timestamp = t - 60, pd_action = ''scale_up''\<rparr>])) = Some 240
   \<and> action (make_scaling_decision default_config now t example_engine_state
               example_recommendation
               (Some [\<lparr>pd_timestamp = t - 400, pd_action = ''scale_up''\<rparr>])) = Some ''scale_up''
   \<and> recommended_instances (make_scaling_decision default_config now t example_engine_state
               example_recommendation
               (Some [\<lparr>pd_timestamp = t - 400, pd_action = ''scale_up''\<rparr>])) = Some 3
   \<and> cooldown_remaining (make_scaling_decision default_config now t example_engine_state
               example_recommendation
               (Some [\<lparr>pd_timestamp = t - 400, pd_action = ''scale_up''\<rparr>])) = None"
proof -
  let ?d = "make_scaling_decision cfg now t cs rec (Some ds)"
  let ?tgt = "max (min_instances cfg)
                (min (max_instances cfg) (fst (calculate_target_resources cfg cs rec)))"
  let ?cur = "case cs_current_instances cs of Some n \<Rightarrow> n | None \<Rightarrow> 1"
  have a: "\<not> allowed (check_cooldown cfg t ds)
      \<and> remaining_time (check_cooldown cfg t ds) = Some (cooldown_of cfg p - (t - pd_timestamp p))
      \<and> action ?d = Some ''maintain''
      \<and> cooldown_remaining ?d = Some (cooldown_of cfg p - (t - pd_timestamp p))"
    if "find (in_cooldown cfg t) (rev (last_n 10 ds)) = Some p" for p
    using that by (simp add: make_scaling_decision_def check_cooldown_find)
  have a': "action ?d = Some ''maintain''"
    if "q \<in> set (last_n 10 ds) \<and> in_cooldown cfg t q"
  proof -
    from that have "find (in_cooldown cfg t) (rev (last_n 10 ds)) \<noteq> None"
      by (auto simp add: find_None_iff)
    then obtain p' where "find (in_cooldown cfg t) (rev (last_n 10 ds)) = Some p'" by blast
    from a [OF this] show ?thesis by blast
  qed
  have b: "allowed (check_cooldown cfg t ds)
      \<and> ?d = make_scaling_decision cfg now t cs rec None"
    if "find (in_cooldown cfg t) (rev (last_n 10 ds)) = None"
    using that by (simp add: make_scaling_decision_def check_cooldown_find last_n_def)
  have b1: "cooldown_remaining ?d = None \<and> reason ?d \<noteq> Some (Cooldown_active why)"
    if "find (in_cooldown cfg t) (rev (last_n 10 ds)) = None"
    using that
    by (simp add: make_scaling_decision_def check_cooldown_find Let_def generate_decision_reason_def
        split: prod.splits)
  have b2: "action ?d = Some ''maintain'' \<and> reason ?d = Some (Low_confidence (r_confidence rec))"
    if "find (in_cooldown cfg t) (rev (last_n 10 ds)) = None"
      and "r_confidence rec < confidence_threshold cfg"
    using that by (simp add: make_scaling_decision_def check_cooldown_find)
  have b3: "recommended_instances ?d = Some ?tgt
      \<and> action ?d = Some (if ?tgt > ?cur then ''scale_up''
                          else if ?tgt < ?cur then ''scale_down'' else ''maintain'')"
    if "find (in_cooldown cfg t) (rev (last_n 10 ds)) = None"
      and "confidence_threshold cfg \<le> r_confidence rec"
    using that
    by (simp add: make_scaling_decision_def check_cooldown_find Let_def split: prod.splits)
  have c: "check_cooldown cfg t ds = check_cooldown cfg t (last_n 10 ds)"
    by (simp only: check_cooldown_find last_n_idem)
  have d: "action (make_scaling_decision default_config now t cs rec
               (Some [\<lparr>pd_timestamp = t - 60, pd_action = ''scale_up''\<rparr>])) = Some ''maintain''
     \<and> cooldown_remaining (make_scaling_decision default_config now t cs rec
               (Some [\<lparr>pd_timestamp = t - 60, pd_action = ''scale_up''\<rparr>])) = Some 240"
    by (simp add: make_scaling_decision_def check_cooldown_def last_n_def default_config_def)
  have e: "action (make_scaling_decision default_config now t example_engine_state
               example_recommendation
               (Some [\<lparr>pd_timestamp = t - 400, pd_action = ''scale_up''\<rparr>])) = Some ''scale_up''
     \<and> recommended_instances (make_scaling_decision default_config now t example_engine_state
               example_recommendation
               (Some [\<lparr>pd_timestamp = t - 400, pd_action = ''scale_up''\<rparr>])) = Some 3
     \<and> cooldown_remaining (make_scaling_decision default_config now t example_engine_state
               example_recommendation
               (Some [\<lparr>pd_timestamp = t - 400, pd_action = ''scale_up''\<rparr>])) = None"
    by (simp add: make_scaling_decision_def check_cooldown_def last_n_def default_config_def
        example_engine_state_def example_recommendation_def calculate_target_resources_def
        py_int_def Let_def)
  from a a' b b1 b2 b3 c d e show ?thesis by blast
qed

text \<open>
  The gate at time 1000 on the history above: the maintain decision is skipped, the
  scale_up 60 seconds old decides, and the scale_down behind it is never reached. At
  time 2000 nothing of that history is in cooldown, and the self-test recommendation
  becomes a scale_up to 3 instances that reports no remaining cooldown.
\<close>

theorem cooldown_gate_witness:
  "find (in_cooldown default_config 1000) (rev (last_n 10 example_history))
     = Some \<lparr>pd_timestamp = 940, pd_action = ''scale_up''\<rparr>
   \<and> action (make_scaling_decision default_config 1000 1000 example_engine_state
               example_recommendation (Some example_history)) = Some ''maintain''
   \<and> cooldown_remaining (make_scaling_decision default_config 1000 1000 example_engine_state
               example_recommendation (Some example_history)) = Some 240
   \<and> find (in_cooldown default_config 2000) (rev (last_n 10 example_history)) = None
   \<and> confidence_threshold default_config \<le> r_confidence example_recommendation
   \<and> action (make_scaling_decision default_config 2000 2000 example_engine_state
               example_recommendation (Some example_history)) = Some ''scale_up''
   \<and> recommended_instances (make_scaling_decision default_config 2000 2000 example_engine_state
               example_recommendation (Some example_history)) = Some 3
   \<and> cooldown_remaining (make_scaling_decision default_config 2000 2000 example_engine_state
               example_recommendation (Some example_history)) = None"
proof -
  have f: "find (in_cooldown default_config 1000) (rev (last_n 10 example_history))
     = Some \<lparr>pd_timestamp = 940, pd_action = ''scale_up''\<rparr>"
    by (simp add: example_history_def last_n_def in_cooldown_def default_config_def)
  have c: "cooldown_of default_config \<lparr>pd_timestamp = 940, pd_action = ''scale_up''\<rparr> = 300"
    by (simp add: cooldown_of_def default_config_def)
  have g: "find (in_cooldown default_config 2000) (rev (last_n 10 example_history)) = None"
    by (simp add: example_history_def last_n_def in_cooldown_def default_config_def)
  have h: "confidence_threshold default_config \<le> r_confidence example_recommendation"
    by (simp add: default_config_def example_recommendation_def)
  have tgt: "max (min_instances default_config)
       (min (max_instances default_config)
          (fst (calculate_target_resources default_config example_engine_state
                  example_recommendation))) = 3"
    by (simp add: default_config_def example_engine_state_def example_recommendation_def
        calculate_target_resources_def py_int_def Let_def)
  have cur: "(case cs_current_instances example_engine_state of Some n \<Rightarrow> n | None \<Rightarrow> 1) = 2"
    by (simp add: example_engine_state_def)
  from cooldown_gate [where cfg = default_config and t = 1000 and ds = example_history
      and p = "\<lparr>pd_timestamp = 940, pd_action = ''scale_up''\<rparr>" and now = 1000
      and cs = example_engine_state and rec = example_recommendation] f c
  have veto: "action (make_scaling_decision default_config 1000 1000 example_engine_state
               example_recommendation (Some example_history)) = Some ''maintain''
   \<and> cooldown_remaining (make_scaling_decision default_config 1000 1000 example_engine_state
               example_recommendation (Some example_history)) = Some 240"
    by simp
  from cooldown_gate [where cfg = default_config and t = 2000 and ds = example_history
      and now = 2000 and cs = example_engine_state and rec = example_recommendation] g h
  have pass: "recommended_instances (make_scaling_decision default_config 2000 2000
               example_engine_state example_recommendation (Some example_history)) =
              Some (max (min_instances default_config)
                     (min (max_instances default_config)
                        (fst (calculate_target_resources default_config example_engine_state
                                example_recommendation))))
     \<and> action (make_scaling_decision default_config 2000 2000 example_engine_state
               example_recommendation (Some example_history)) =
              Some (if max (min_instances default_config)
                         (min (max_instances default_config)
                            (fst (calculate_target_resources default_config example_engine_state
                                    example_recommendation)))
                       > (case cs_current_instances example_engine_state of Some n \<Rightarrow> n | None \<Rightarrow> 1)
                    then ''scale_up''
                    else if max (min_instances default_config)
                         (min (max_instances default_config)
                            (fst (calculate_target_resources default_config example_engine_state
                                    example_recommendation)))
                       < (case cs_current_instances example_engine_state of Some n \<Rightarrow> n | None \<Rightarrow> 1)
                    then ''scale_down'' else ''maintain'')
     \<and> cooldown_remaining (make_scaling_decision default_config 2000 2000 example_engine_state
               example_recommendation (Some example_history)) = None"
    by blast
  from pass tgt cur
  have pass': "action (make_scaling_decision default_config 2000 2000 example_engine_state
               example_recommendation (Some example_history)) = Some ''scale_up''
     \<and> recommended_instances (make_scaling_decision default_config 2000 2000 example_engine_state
               example_recommendation (Some example_history)) = Some 3
     \<and> cooldown_remaining (make_scaling_decision default_config 2000 2000 example_engine_state
               example_recommendation (Some example_history)) = None"
    by simp
  from f veto g h pass' show ?thesis by blast
qed

text \<open>
  Claim C2, as the code has it. Under a configuration with
  \<open>min_instances \<le> max_instances\<close>, a decision that passes both gates (the cooldown gate
  allows it and the confidence reaches the threshold) recommends an instance count within
  [\<open>min_instances\<close>, \<open>max_instances\<close>] and resource totals no larger than the configured
  ceilings. A decision vetoed by the cooldown gate or by the confidence gate is maintain
  and repeats the instance count and the resources of the current state as they are
  (1 instance and no resources when the state has none), without bounding them. With 1
  current instance, \<open>max_instances\<close> 3 and a scale_up recommendation that adds 2, the
  recommended count is 3.
\<close>

theorem make_scaling_decision_bounds:
  assumes "min_instances cfg \<le> max_instances cfg"
  shows "(allowed (check_cooldown cfg t (case hist of Some ds \<Rightarrow> ds | None \<Rightarrow> []))
          \<and> confidence_threshold cfg \<le> r_confidence rec' \<longrightarrow>
            (\<exists>n res c m s.
               recommended_instances (make_scaling_decision cfg now t cs rec' hist) = Some n
               \<and> min_instances cfg \<le> n \<and> n \<le> max_instances cfg
               \<and> recommended_resources (make_scaling_decision cfg now t cs rec' hist) = Some res
               \<and> map_of res ''total_cpu_cores'' = Some c \<and> c \<le> cpu_cores (resource_limits cfg)
               \<and> map_of res ''total_memory_gb'' = Some m \<and> m \<le> memory_gb (resource_limits cfg)
               \<and> map_of res ''total_storage_gb'' = Some s \<and> s \<le> storage_gb (resource_limits cfg)))
       \<and> (\<not> (allowed (check_cooldown cfg t (case hist of Some ds \<Rightarrow> ds | None \<Rightarrow> []))
               \<and> confidence_threshold cfg \<le> r_confidence rec') \<longrightarrow>
            action (make_scaling_decision cfg now t cs rec' hist) = Some ''maintain''
            \<and> recommended_instances (make_scaling_decision cfg now t cs rec' hist) =
                 Some (case cs_current_instances cs of Some n \<Rightarrow> n | None \<Rightarrow> 1)
            \<and> recommended_resources (make_scaling_decision cfg now t cs rec' hist) =
                 Some (case cs_current_resources cs of Some r \<Rightarrow> r | None \<Rightarrow> []))
       \<and> recommended_instances
           (make_scaling_decision (default_config\<lparr>max_instances := 3\<rparr>) now t
              \<lparr>cs_current_instances = Some 1, cs_load_score = Some 95, cs_current_resources = None\<rparr>
              \<lparr>r_action = ''scale_up'', r_confidence = 9/10, r_reason = High_load_predicted 100,
               r_predicted_load = Some 100, r_max_predicted_load = Some 100, r_trend = Some 5\<rparr>
              None) = Some 3"
proof -
  let ?d = "make_scaling_decision cfg now t cs rec' hist"
  let ?ok = "allowed (check_cooldown cfg t (case hist of Some ds \<Rightarrow> ds | None \<Rightarrow> []))
          \<and> confidence_threshold cfg \<le> r_confidence rec'"
  have pass: "\<exists>n res c m s.
               recommended_instances ?d = Some n
               \<and> min_instances cfg \<le> n \<and> n \<le> max_instances cfg
               \<and> recommended_resources ?d = Some res
               \<and> map_of res ''total_cpu_cores'' = Some c \<and> c \<le> cpu_cores (resource_limits cfg)
               \<and> map_of res ''total_memory_gb'' = Some m \<and> m \<le> memory_gb (resource_limits cfg)
               \<and> map_of res ''total_storage_gb'' = Some s \<and> s \<le> storage_gb (resource_limits cfg)"
    if ok: ?ok
  proof -
    obtain n0 res where tr: "calculate_target_resources cfg cs rec' = (n0, res)"
      by (cases "calculate_target_resources cfg cs rec'")
    then have res: "res = calculate_resource_allocation cfg n0
        (case r_max_predicted_load rec' of Some l \<Rightarrow> l
         | None \<Rightarrow> (case cs_load_score cs of Some l \<Rightarrow> l | None \<Rightarrow> 50))"
      by (auto simp add: calculate_target_resources_def Let_def)
    have n: "recommended_instances ?d = Some (max (min_instances cfg) (min (max_instances cfg) n0))"
      and r: "recommended_resources ?d = Some res"
      using ok tr by (simp_all add: make_scaling_decision_def Let_def)
    have caps: "\<exists>c m s. map_of res ''total_cpu_cores'' = Some c \<and> c \<le> cpu_cores (resource_limits cfg)
               \<and> map_of res ''total_memory_gb'' = Some m \<and> m \<le> memory_gb (resource_limits cfg)
               \<and> map_of res ''total_storage_gb'' = Some s \<and> s \<le> storage_gb (resource_limits cfg)"
      unfolding res by (simp add: calculate_resource_allocation_def Let_def)
    from n r caps assms show ?thesis by auto
  qed
  have veto: "action ?d = Some ''maintain''
            \<and> recommended_instances ?d = Some (case cs_current_instances cs of Some n \<Rightarrow> n | None \<Rightarrow> 1)
            \<and> recommended_resources ?d = Some (case cs_current_resources cs of Some r \<Rightarrow> r | None \<Rightarrow> [])"
    if "\<not> ?ok"
    using that by (auto simp add: make_scaling_decision_def Let_def)
  have ex: "recommended_instances
           (make_scaling_decision (default_config\<lparr>max_instances := 3\<rparr>) now t
              \<lparr>cs_current_instances = Some 1, cs_load_score = Some 95, cs_current_resources = None\<rparr>
              \<lparr>r_action = ''scale_up'', r_confidence = 9/10, r_reason = High_load_predicted 100,
               r_predicted_load = Some 100, r_max_predicted_load = Some 100, r_trend = Some 5\<rparr>
              None) = Some 3"
    by (simp add: make_scaling_decision_def check_cooldown_def default_config_def
        calculate_target_resources_def py_int_def Let_def)
  from pass veto ex show ?thesis by blast
qed

text \<open>The bounds at the engine's self-test under the default configuration: 2 instances
  and a predicted load of 90 give 3 instances and 11.4 cores, below the ceiling of 16.\<close>

theorem make_scaling_decision_bounds_witness:
  "min_instances default_config \<le> max_instances default_config
   \<and> recommended_instances
       (make_scaling_decision default_config 0 0 example_engine_state example_recommendation None)
       = Some 3
   \<and> map_option (\<lambda>res. map_of res ''total_cpu_cores'')
       (recommended_resources
         (make_scaling_decision default_config 0 0 example_engine_state example_recommendation None))
       = Some (Some (57/5))"
proof -
  have h: "min_instances default_config \<le> max_instances default_config"
    by (simp add: default_config_def)
  have v: "recommended_instances
       (make_scaling_decision default_config 0 0 example_engine_state example_recommendation None)
       = Some 3
   \<and> map_option (\<lambda>res. map_of res ''total_cpu_cores'')
       (recommended_resources
         (make_scaling_decision default_config 0 0 example_engine_state example_recommendation None))
       = Some (Some (57/5))"
    by (simp add: make_scaling_decision_def check_cooldown_def default_config_def
        example_engine_state_def example_recommendation_def calculate_target_resources_def
        calculate_resource_allocation_def py_int_def Let_def)
  from make_scaling_decision_bounds [OF h, of 0 None example_recommendation 0 example_engine_state]
    h v show ?thesis by simp
qed

text \<open>
  Claim C2 as it is stated fails on the vetoed decisions. Under the default
  configuration (at most 10 instances, at most 16 cores), a cooldown veto on a state
  with 12 instances recommends 12 instances, and a confidence veto on a host with 64
  cores recommends 64 cores.
\<close>

theorem veto_decisions_echo_current_state:
  "recommended_instances
     (make_scaling_decision default_config 100 100 oversized_state example_recommendation
        (Some [\<lparr>pd_timestamp = 40, pd_action = ''scale_up''\<rparr>])) = Some 12
   \<and> max_instances default_config = 10
   \<and> map_option (\<lambda>res. map_of res ''total_cpu_cores'')
       (recommended_resources
          (make_scaling_decision default_config 100 100 large_host_state weak_recommendation None))
       = Some (Some 64)
   \<and> cpu_cores (resource_limits default_config) = 16"
  by (simp add: make_scaling_decision_def check_cooldown_def last_n_def default_config_def
      oversized_state_def large_host_state_def weak_recommendation_def example_recommendation_def)

section \<open>The resource manager's properties\<close>

lemma last_n_cap: "(if length xs > n then last_n n xs else xs) = last_n n xs"
  by (simp add: last_n_def)

lemma run_operation_keys:
  assumes "act = ''scale_up'' \<or> act = ''scale_down''"
    and "run_operation fails self d act = Inr res"
  shows "\<exists>n rs. recommended_instances d = Some n \<and> recommended_resources d = Some rs"
  using assms
  by (auto simp add: run_operation_def scale_up_def scale_down_def bind_err_def getitem_def Let_def
      split: option.splits sum.splits if_splits)

lemma assign_target_ok:
  assumes "action d = Some act"
    and "act = ''scale_up'' \<or> act = ''scale_down'' \<Longrightarrow>
           \<exists>n rs. recommended_instances d = Some n \<and> recommended_resources d = Some rs"
  shows "assign_target s d = (target_state s d act, None)"
  using assms by (auto simp add: assign_target_def target_state_def)

lemma update_state_no_reason:
  assumes "action d = Some act" and "reason d = None" and "res_status er = ''completed''"
    and "act = ''scale_up'' \<or> act = ''scale_down'' \<Longrightarrow>
           \<exists>n rs. recommended_instances d = Some n \<and> recommended_resources d = Some rs"
  shows "update_state s d er = (target_state s d act, Inl (KeyError ''reason''))"
  using assms(1-3) assign_target_ok [OF assms(1) assms(4)]
  by (simp add: update_state_def)

lemma update_state_reason:
  assumes "action d = Some act" and "reason d = Some why" and "res_status er = ''completed''"
    and "act = ''scale_up'' \<or> act = ''scale_down'' \<Longrightarrow>
           \<exists>n rs. recommended_instances d = Some n \<and> recommended_resources d = Some rs"
  shows "\<exists>er'. update_state s d er =
           ((target_state s d act)
              \<lparr>scaling_events := last_n 50 (scaling_events s @
                 [\<lparr>ev_timestamp = res_timestamp er, ev_action = act,
                   instances_before = instances (previous_state er),
                   instances_after = instances (target_state s d act), ev_reason = why,
                   execution_time = execution_time_seconds er\<rparr>])\<rparr>, Inr er')
         \<and> res_status er' = res_status er \<and> errors er' = errors er
         \<and> res_timestamp er' = res_timestamp er \<and> res_action er' = res_action er"
proof -
  have se: "scaling_events (target_state s d act) = scaling_events s"
    by (simp add: target_state_def split: option.splits)
  show ?thesis
    using assms(1-3) assign_target_ok [OF assms(1) assms(4)] se
    by (simp add: update_state_def Let_def last_n_cap)
qed

lemma execute_scaling_decision_cases:
  assumes act: "action d = Some act"
  shows "\<exists>r s'. execute_scaling_decision fails now now_saved self d =
            Inr (r, \<lparr>current_state = s'\<lparr>last_updated := now_saved\<rparr>,
                     execution_history = execution_history self @ [r],
                     state_file = Some (s'\<lparr>last_updated := now_saved\<rparr>)\<rparr>)
          \<and> res_timestamp r = now \<and> res_action r = act
          \<and> ((\<exists>e. run_operation fails self d act = Inl e
                  \<and> res_status r = ''failed'' \<and> errors r = [e] \<and> s' = current_state self)
            \<or> (\<exists>res. run_operation fails self d act = Inr res \<and> reason d = None
                  \<and> res_status r = ''failed'' \<and> errors r = [KeyError ''reason'']
                  \<and> s' = target_state (current_state self) d act)
            \<or> (\<exists>res why. run_operation fails self d act = Inr res \<and> reason d = Some why
                  \<and> res_status r = ''completed'' \<and> errors r = []
                  \<and> s' = (target_state (current_state self) d act)
                       \<lparr>scaling_events := last_n 50 (scaling_events (current_state self) @
                          [event_of now (current_state self) d act why])\<rparr>))"
proof (cases "run_operation fails self d act")
  case (Inl e)
  with act show ?thesis
    by (simp add: execute_scaling_decision_def save_state_def Let_def)
next
  case (Inr res)
  have keys: "act = ''scale_up'' \<or> act = ''scale_down'' \<Longrightarrow>
           \<exists>n rs. recommended_instances d = Some n \<and> recommended_resources d = Some rs"
    using run_operation_keys [OF _ Inr] by blast
  let ?er0 = "\<lparr>instances_added = None, instances_removed = None, new_total_instances = None,
                  provisioned_instances = None, removed_instances = None,
                  instances_maintained = None, optimization_applied = None,
                  resource_allocation = None,
                  res_timestamp = now, res_action = act, res_status = ''started'',
                  execution_time_seconds = simulate_scaling_time act,
                  previous_state = current_state self, errors = [], warnings = []\<rparr>"
  let ?er = "(update_result ?er0 res)\<lparr>res_status := ''completed''\<rparr>"
  have er: "res_status ?er = ''completed''" "errors ?er = []" "res_timestamp ?er = now"
    "res_action ?er = act" "previous_state ?er = current_state self"
    "execution_time_seconds ?er = simulate_scaling_time act"
    by (simp_all add: update_result_def)
  show ?thesis
  proof (cases "reason d")
    case None
    from update_state_no_reason [OF act None er(1) keys, of "current_state self"]
    show ?thesis using act Inr None er
      by (simp add: execute_scaling_decision_def save_state_def Let_def)
  next
    case (Some why)
    from update_state_reason [OF act Some er(1) keys, of "current_state self"]
    obtain er' where u: "update_state (current_state self) d ?er =
           ((target_state (current_state self) d act)
              \<lparr>scaling_events := last_n 50 (scaling_events (current_state self) @
                 [\<lparr>ev_timestamp = res_timestamp ?er, ev_action = act,
                   instances_before = instances (previous_state ?er),
                   instances_after = instances (target_state (current_state self) d act),
                   ev_reason = why,
                   execution_time = execution_time_seconds ?er\<rparr>])\<rparr>, Inr er')"
      and e': "res_status er' = res_status ?er" "errors er' = errors ?er"
        "res_timestamp er' = res_timestamp ?er" "res_action er' = res_action ?er"
      by blast
    show ?thesis using act Inr Some u e' er
      by (simp add: execute_scaling_decision_def save_state_def Let_def event_of_def)
  qed
qed

lemma target_state_events: "scaling_events (target_state s d act) = scaling_events s"
  by (simp add: target_state_def split: option.splits)

lemma target_state_other:
  "act \<noteq> ''scale_up'' \<Longrightarrow> act \<noteq> ''scale_down'' \<Longrightarrow> target_state s d act = s"
  by (simp add: target_state_def)

lemma length_last_n: "length (last_n n xs) = min n (length xs)"
  by (simp add: last_n_def)

lemma last_n_append: "last_n n (last_n n xs @ ys) = last_n n (xs @ ys)"
proof (cases "n \<le> length xs")
  case True
  then have "length xs + length ys - (length xs - n + n) + (length xs - n)
      = length xs + length ys - n" by simp
  then show ?thesis by (simp add: last_n_def)
next
  case False
  then show ?thesis by (simp add: last_n_def)
qed

lemma run_steps_no_fault: "run_steps (no_faults instance_id) steps = Inr ()"
  by (induction steps) (simp_all add: no_faults_def)

text \<open>When no step raises, a decision that carries every key completes.\<close>

lemma provision_no_faults:
  assumes "recommended_resources d = Some rs"
    and "map_of rs ''cpu_per_instance'' \<noteq> None" and "map_of rs ''memory_per_instance'' \<noteq> None"
    and "map_of rs ''storage_per_instance'' \<noteq> None"
  shows "\<exists>ds. provision no_faults d c is = Inr ds"
proof (induction "is")
  case Nil
  then show ?case by simp
next
  case (Cons i "is")
  from assms have "\<exists>x. provision_instance no_faults d c i = Inr x"
    by (auto simp add: provision_instance_def bind_err_def getitem_def getitem_res_def
        run_steps_no_fault Let_def)
  with Cons show ?case by auto
qed

lemma deprovision_no_faults: "\<exists>ds. deprovision no_faults c is = Inr ds"
proof (induction "is")
  case Nil
  then show ?case by simp
next
  case (Cons i "is")
  have "\<exists>x. remove_instance no_faults c i = Inr x"
    by (simp add: remove_instance_def bind_err_def run_steps_no_fault Let_def)
  with Cons show ?case by auto
qed

lemma well_formed_runs:
  assumes "well_formed d" and "action d = Some act"
  shows "\<exists>res. run_operation no_faults self d act = Inr res"
proof -
  from assms obtain n rs where n: "recommended_instances d = Some n"
    and rs: "recommended_resources d = Some rs"
    and keys: "map_of rs ''cpu_per_instance'' \<noteq> None" "map_of rs ''memory_per_instance'' \<noteq> None"
      "map_of rs ''storage_per_instance'' \<noteq> None"
    by (auto simp add: well_formed_def split: option.splits)
  from provision_no_faults [OF rs keys]
  obtain ps where ps: "provision no_faults d (instances (current_state self))
      [0..<nat (n - instances (current_state self))] = Inr ps" by blast
  from deprovision_no_faults
  obtain ds where ds: "deprovision no_faults (instances (current_state self))
      [0..<nat (instances (current_state self) - n)] = Inr ds" by blast
  show ?thesis
    using n rs ps ds
    by (simp add: run_operation_def scale_up_def scale_down_def maintain_resources_def
        bind_err_def getitem_def run_steps_no_fault Let_def)
qed

lemma well_formed_completes:
  assumes "well_formed d"
  shows "\<exists>r self'. execute_scaling_decision no_faults now now_saved self d = Inr (r, self')
           \<and> res_status r = ''completed''"
proof -
  from assms obtain act why where act: "action d = Some act" and why: "reason d = Some why"
    by (auto simp add: well_formed_def)
  from well_formed_runs [OF assms act, of self]
    execute_scaling_decision_cases [OF act, of no_faults now now_saved self] why
  show ?thesis by auto
qed

lemma execute_all_well_formed:
  assumes "\<forall>run\<in>set runs. well_formed (snd (snd run))"
  shows "\<exists>rs self'. execute_all no_faults self runs = Inr (rs, self')
           \<and> length rs = length runs \<and> completed_results rs = rs"
  using assms
proof (induction runs arbitrary: self)
  case Nil
  then show ?case by (simp add: completed_results_def)
next
  case (Cons run runs)
  obtain now now_saved d where run: "run = (now, now_saved, d)" by (cases run)
  with Cons.prems have d: "well_formed d" by auto
  from well_formed_completes [OF d, of now now_saved self] obtain r self1 where
    first: "execute_scaling_decision no_faults now now_saved self d = Inr (r, self1)"
    and c: "res_status r = ''completed''" by blast
  from Cons.IH [of self1] Cons.prems obtain rs self' where
    rest: "execute_all no_faults self1 runs = Inr (rs, self')"
    and l: "length rs = length runs" and cr: "completed_results rs = rs"
    by auto
  from first rest run have "execute_all no_faults self (run # runs) = Inr (r # rs, self')"
    by simp
  moreover have "completed_results (r # rs) = r # rs"
    using c cr by (simp add: completed_results_def)
  ultimately show ?case using l by auto
qed

lemma execute_events:
  assumes "execute_scaling_decision fails now now_saved self d = Inr (r, self')"
  shows "(res_status r = ''completed''
          \<and> (\<exists>ev. ev_timestamp ev = res_timestamp r \<and> ev_action ev = res_action r
                \<and> scaling_events (current_state self') =
                    last_n 50 (scaling_events (current_state self) @ [ev])))
       \<or> (res_status r = ''failed''
          \<and> scaling_events (current_state self') = scaling_events (current_state self))"
proof -
  from assms obtain act where act: "action d = Some act"
    by (cases "action d") (simp_all add: execute_scaling_decision_def)
  from execute_scaling_decision_cases [OF act, of fails now now_saved self] assms
  obtain s' where
    self': "self' = \<lparr>current_state = s'\<lparr>last_updated := now_saved\<rparr>,
                     execution_history = execution_history self @ [r],
                     state_file = Some (s'\<lparr>last_updated := now_saved\<rparr>)\<rparr>"
    and r: "res_timestamp r = now" "res_action r = act"
    and cases: "(\<exists>e. run_operation fails self d act = Inl e
                  \<and> res_status r = ''failed'' \<and> errors r = [e] \<and> s' = current_state self)
            \<or> (\<exists>res. run_operation fails self d act = Inr res \<and> reason d = None
                  \<and> res_status r = ''failed'' \<and> errors r = [KeyError ''reason'']
                  \<and> s' = target_state (current_state self) d act)
            \<or> (\<exists>res why. run_operation fails self d act = Inr res \<and> reason d = Some why
                  \<and> res_status r = ''completed'' \<and> errors r = []
                  \<and> s' = (target_state (current_state self) d act)
                       \<lparr>scaling_events := last_n 50 (scaling_events (current_state self) @
                          [event_of now (current_state self) d act why])\<rparr>)"
    by auto
  from cases show ?thesis
  proof (elim disjE exE conjE)
    fix e
    assume "res_status r = ''failed''" "s' = current_state self"
    with self' show ?thesis by simp
  next
    fix res
    assume "res_status r = ''failed''" "s' = target_state (current_state self) d act"
    with self' show ?thesis by (simp add: target_state_events)
  next
    fix res why
    assume c: "res_status r = ''completed''"
      and s': "s' = (target_state (current_state self) d act)
                       \<lparr>scaling_events := last_n 50 (scaling_events (current_state self) @
                          [event_of now (current_state self) d act why])\<rparr>"
    have "ev_timestamp (event_of now (current_state self) d act why) = res_timestamp r"
      "ev_action (event_of now (current_state self) d act why) = res_action r"
      using r by (simp_all add: event_of_def)
    moreover have "scaling_events (current_state self') =
        last_n 50 (scaling_events (current_state self) @ [event_of now (current_state self) d act why])"
      using self' s' by simp
    ultimately show ?thesis using c by blast
  qed
qed

lemma execute_all_events:
  assumes "execute_all fails self runs = Inr (rs, self')"
  shows "\<exists>evs. map ev_timestamp evs = map res_timestamp (completed_results rs)
            \<and> map ev_action evs = map res_action (completed_results rs)
            \<and> scaling_events (current_state self') =
                (if evs = [] then scaling_events (current_state self)
                 else last_n 50 (scaling_events (current_state self) @ evs))"
  using assms
proof (induction runs arbitrary: self rs)
  case Nil
  then show ?case by (simp add: completed_results_def)
next
  case (Cons run runs)
  obtain now now_saved d where run: "run = (now, now_saved, d)" by (cases run)
  from Cons.prems run obtain r self1 rs1 where
    first: "execute_scaling_decision fails now now_saved self d = Inr (r, self1)"
    and rest: "execute_all fails self1 runs = Inr (rs1, self')"
    and rs: "rs = r # rs1"
    by (auto split: sum.splits prod.splits)
  from Cons.IH [OF rest] obtain evs1 where
    ts1: "map ev_timestamp evs1 = map res_timestamp (completed_results rs1)"
    and ac1: "map ev_action evs1 = map res_action (completed_results rs1)"
    and ev1: "scaling_events (current_state self') =
                (if evs1 = [] then scaling_events (current_state self1)
                 else last_n 50 (scaling_events (current_state self1) @ evs1))"
    by blast
  from execute_events [OF first] show ?case
  proof (elim disjE conjE exE)
    fix ev
    assume c: "res_status r = ''completed''" and t: "ev_timestamp ev = res_timestamp r"
      and a: "ev_action ev = res_action r"
      and e: "scaling_events (current_state self1) =
               last_n 50 (scaling_events (current_state self) @ [ev])"
    have "scaling_events (current_state self') =
            last_n 50 (scaling_events (current_state self) @ ev # evs1)"
      using ev1 e by (simp add: last_n_append)
    with c t a ts1 ac1 rs show ?thesis
      by (intro exI [of _ "ev # evs1"]) (simp add: completed_results_def)
  next
    assume f: "res_status r = ''failed''"
      and e: "scaling_events (current_state self1) = scaling_events (current_state self)"
    with ts1 ac1 ev1 rs show ?thesis
      by (intro exI [of _ evs1]) (simp add: completed_results_def)
  qed
qed

text \<open>
  Claim C1. A scaling decision carries its action and its reason, as every decision the
  program builds does. For every such decision \<open>execute_scaling_decision\<close> returns a
  result: no failure of a step leaves it as an exception. The result is failed exactly
  when a step of the dispatched operation raises (\<open>run_operation\<close>: a checklist step of the
  scale-up, the scale-down or the maintenance, or a read of the decision), and completed
  otherwise. A failed result has a non-empty list of errors, and the instances, the
  resources and the scaling events of the state are exactly as before the call.
\<close>

theorem execute_scaling_decision_failure_is_reported:
  assumes "action decision = Some act" and "reason decision = Some why"
  shows "\<exists>r self'. execute_scaling_decision fails now now_saved self decision = Inr (r, self')
     \<and> (res_status r = ''completed'' \<or> res_status r = ''failed'')
     \<and> ((\<exists>e. run_operation fails self decision act = Inl e) = (res_status r = ''failed''))
     \<and> (res_status r = ''failed'' \<longrightarrow>
           errors r \<noteq> []
         \<and> instances (current_state self') = instances (current_state self)
         \<and> resources (current_state self') = resources (current_state self)
         \<and> scaling_events (current_state self') = scaling_events (current_state self))"
proof -
  from execute_scaling_decision_cases [OF assms(1), of fails now now_saved self]
  obtain r s' where
    ex: "execute_scaling_decision fails now now_saved self decision =
            Inr (r, \<lparr>current_state = s'\<lparr>last_updated := now_saved\<rparr>,
                     execution_history = execution_history self @ [r],
                     state_file = Some (s'\<lparr>last_updated := now_saved\<rparr>)\<rparr>)"
    and cases: "(\<exists>e. run_operation fails self decision act = Inl e
                  \<and> res_status r = ''failed'' \<and> errors r = [e] \<and> s' = current_state self)
            \<or> (\<exists>res. run_operation fails self decision act = Inr res \<and> reason decision = None
                  \<and> res_status r = ''failed'' \<and> errors r = [KeyError ''reason'']
                  \<and> s' = target_state (current_state self) decision act)
            \<or> (\<exists>res why. run_operation fails self decision act = Inr res \<and> reason decision = Some why
                  \<and> res_status r = ''completed'' \<and> errors r = []
                  \<and> s' = (target_state (current_state self) decision act)
                       \<lparr>scaling_events := last_n 50 (scaling_events (current_state self) @
                          [event_of now (current_state self) decision act why])\<rparr>)"
    by blast
  from cases show ?thesis
  proof (elim disjE exE conjE)
    fix e
    assume "run_operation fails self decision act = Inl e" "res_status r = ''failed''"
      "errors r = [e]" "s' = current_state self"
    with ex show ?thesis by simp
  next
    fix res
    assume "reason decision = None"
    with assms(2) show ?thesis by simp
  next
    fix res why'
    assume "run_operation fails self decision act = Inr res" "res_status r = ''completed''"
    with ex show ?thesis by simp
  qed
qed

text \<open>The theorem at the self-test decision (scale up from 1 to 3 instances) when
  installing the application on instance 3 raises: the result is failed with that
  error, and the state keeps its instances, resources and events.\<close>

theorem execute_scaling_decision_failure_is_reported_witness:
  "action test_decision = Some ''scale_up''
   \<and> reason test_decision = Some (Text ''Test scaling operation'')
   \<and> run_operation install_fails fresh_manager test_decision ''scale_up''
        = Inl (RuntimeError ''Installing application'')
   \<and> map_option res_status
        (result_after (execute_scaling_decision install_fails 5 6 fresh_manager test_decision))
        = Some ''failed''
   \<and> map_option errors
        (result_after (execute_scaling_decision install_fails 5 6 fresh_manager test_decision))
        = Some [RuntimeError ''Installing application'']
   \<and> map_option instances
        (state_after (execute_scaling_decision install_fails 5 6 fresh_manager test_decision))
        = Some (instances (current_state fresh_manager))
   \<and> map_option resources
        (state_after (execute_scaling_decision install_fails 5 6 fresh_manager test_decision))
        = Some (resources (current_state fresh_manager))
   \<and> map_option scaling_events
        (state_after (execute_scaling_decision install_fails 5 6 fresh_manager test_decision))
        = Some (scaling_events (current_state fresh_manager))"
proof -
  have a: "action test_decision = Some ''scale_up''" by (simp add: test_decision_def)
  have w: "reason test_decision = Some (Text ''Test scaling operation'')"
    by (simp add: test_decision_def)
  have op: "run_operation install_fails fresh_manager test_decision ''scale_up''
        = Inl (RuntimeError ''Installing application'')" by code_simp
  have e: "map_option errors
        (result_after (execute_scaling_decision install_fails 5 6 fresh_manager test_decision))
        = Some [RuntimeError ''Installing application'']" by code_simp
  from execute_scaling_decision_failure_is_reported [OF a w, of install_fails 5 6 fresh_manager]
  obtain r self' where
    run: "execute_scaling_decision install_fails 5 6 fresh_manager test_decision = Inr (r, self')"
    and iff: "(\<exists>e. run_operation install_fails fresh_manager test_decision ''scale_up'' = Inl e)
           = (res_status r = ''failed'')"
    and frame: "res_status r = ''failed'' \<longrightarrow>
           errors r \<noteq> []
         \<and> instances (current_state self') = instances (current_state fresh_manager)
         \<and> resources (current_state self') = resources (current_state fresh_manager)
         \<and> scaling_events (current_state self') = scaling_events (current_state fresh_manager)"
    by blast
  from iff op have failed: "res_status r = ''failed''" by simp
  with frame a w op e run show ?thesis by (simp add: result_after_def state_after_def)
qed

text \<open>
  Claim C10. Every call of \<open>execute_scaling_decision\<close> on a scaling decision (one that
  carries its action and its reason), completed or failed, writes the resulting state to
  the state file and sets \<open>last_updated\<close> to the clock as read when saving, which advances
  it whenever the clock has passed the old value. On a failed execution \<open>last_updated\<close> is
  the only field of the state that changes.
\<close>

theorem execute_scaling_decision_saves_state:
  assumes "action decision = Some act" and "reason decision = Some why"
  shows "\<exists>r self'. execute_scaling_decision fails now now_saved self decision = Inr (r, self')
     \<and> (res_status r = ''completed'' \<or> res_status r = ''failed'')
     \<and> state_file self' = Some (current_state self')
     \<and> last_updated (current_state self') = now_saved
     \<and> (last_updated (current_state self) < now_saved \<longrightarrow>
          last_updated (current_state self) < last_updated (current_state self'))
     \<and> (res_status r = ''failed'' \<longrightarrow>
           current_state self' = (current_state self)\<lparr>last_updated := now_saved\<rparr>)"
proof -
  from execute_scaling_decision_cases [OF assms(1), of fails now now_saved self]
  obtain r s' where
    ex: "execute_scaling_decision fails now now_saved self decision =
            Inr (r, \<lparr>current_state = s'\<lparr>last_updated := now_saved\<rparr>,
                     execution_history = execution_history self @ [r],
                     state_file = Some (s'\<lparr>last_updated := now_saved\<rparr>)\<rparr>)"
    and cases: "(\<exists>e. run_operation fails self decision act = Inl e
                  \<and> res_status r = ''failed'' \<and> errors r = [e] \<and> s' = current_state self)
            \<or> (\<exists>res. run_operation fails self decision act = Inr res \<and> reason decision = None
                  \<and> res_status r = ''failed'' \<and> errors r = [KeyError ''reason'']
                  \<and> s' = target_state (current_state self) decision act)
            \<or> (\<exists>res why. run_operation fails self decision act = Inr res \<and> reason decision = Some why
                  \<and> res_status r = ''completed'' \<and> errors r = []
                  \<and> s' = (target_state (current_state self) decision act)
                       \<lparr>scaling_events := last_n 50 (scaling_events (current_state self) @
                          [event_of now (current_state self) decision act why])\<rparr>)"
    by blast
  from cases show ?thesis
  proof (elim disjE exE conjE)
    fix e
    assume "run_operation fails self decision act = Inl e" "res_status r = ''failed''"
      "errors r = [e]" "s' = current_state self"
    with ex show ?thesis by simp
  next
    fix res
    assume "reason decision = None"
    with assms(2) show ?thesis by simp
  next
    fix res why'
    assume "run_operation fails self decision act = Inr res" "res_status r = ''completed''"
    with ex show ?thesis by simp
  qed
qed

text \<open>The theorem at the self-test decision when installing the application on
  instance 3 raises, entered at time 5 and saved at time 6: the execution fails, and
  the state and the file are the old state with \<open>last_updated\<close> set to 6.\<close>

theorem execute_scaling_decision_saves_state_witness:
  "action test_decision = Some ''scale_up''
   \<and> reason test_decision = Some (Text ''Test scaling operation'')
   \<and> last_updated (current_state fresh_manager) < 6
   \<and> map_option res_status
        (result_after (execute_scaling_decision install_fails 5 6 fresh_manager test_decision))
        = Some ''failed''
   \<and> state_after (execute_scaling_decision install_fails 5 6 fresh_manager test_decision)
        = Some ((current_state fresh_manager)\<lparr>last_updated := 6\<rparr>)
   \<and> file_after (execute_scaling_decision install_fails 5 6 fresh_manager test_decision)
        = Some ((current_state fresh_manager)\<lparr>last_updated := 6\<rparr>)"
proof -
  have a: "action test_decision = Some ''scale_up''" by (simp add: test_decision_def)
  have w: "reason test_decision = Some (Text ''Test scaling operation'')"
    by (simp add: test_decision_def)
  have l: "last_updated (current_state fresh_manager) < 6" by (simp add: fresh_manager_def)
  have f: "map_option res_status
        (result_after (execute_scaling_decision install_fails 5 6 fresh_manager test_decision))
        = Some ''failed''" by code_simp
  from execute_scaling_decision_saves_state [OF a w, of install_fails 5 6 fresh_manager]
  obtain r self' where
    run: "execute_scaling_decision install_fails 5 6 fresh_manager test_decision = Inr (r, self')"
    and saved: "state_file self' = Some (current_state self')"
    and only: "res_status r = ''failed'' \<longrightarrow>
           current_state self' = (current_state fresh_manager)\<lparr>last_updated := 6\<rparr>"
    by blast
  from f run have "res_status r = ''failed''" by (simp add: result_after_def)
  with only have "current_state self' = (current_state fresh_manager)\<lparr>last_updated := 6\<rparr>"
    by blast
  with a w l f run saved show ?thesis by (simp add: state_after_def file_after_def)
qed

text \<open>
  Claim C8, as the code has it. Executing a maintain decision never changes the
  instances or the resources. When it fails, the scaling events are unchanged. When it
  completes, it appends one event (and the list keeps its last 50): the event has the
  action maintain and the same instance count before and after, so it records no change
  of the instance count. The scaling events therefore record every completed
  execution, not only the scale_up and scale_down transitions.
\<close>

theorem maintain_keeps_instances_and_resources:
  assumes "action decision = Some ''maintain''"
  shows "\<exists>r self'. execute_scaling_decision fails now now_saved self decision = Inr (r, self')
     \<and> instances (current_state self') = instances (current_state self)
     \<and> resources (current_state self') = resources (current_state self)
     \<and> (res_status r = ''failed'' \<longrightarrow>
          scaling_events (current_state self') = scaling_events (current_state self))
     \<and> (res_status r = ''completed'' \<longrightarrow>
          (\<exists>why. reason decision = Some why
             \<and> scaling_events (current_state self') =
                 last_n 50 (scaling_events (current_state self) @
                   [\<lparr>ev_timestamp = now, ev_action = ''maintain'',
                     instances_before = instances (current_state self),
                     instances_after = instances (current_state self),
                     ev_reason = why, execution_time = 1/2\<rparr>])))"
proof -
  have ts: "target_state (current_state self) decision ''maintain'' = current_state self"
    by (simp add: target_state_def)
  from execute_scaling_decision_cases [OF assms, of fails now now_saved self]
  obtain r s' where
    ex: "execute_scaling_decision fails now now_saved self decision =
            Inr (r, \<lparr>current_state = s'\<lparr>last_updated := now_saved\<rparr>,
                     execution_history = execution_history self @ [r],
                     state_file = Some (s'\<lparr>last_updated := now_saved\<rparr>)\<rparr>)"
    and cases: "(\<exists>e. run_operation fails self decision ''maintain'' = Inl e
                  \<and> res_status r = ''failed'' \<and> errors r = [e] \<and> s' = current_state self)
            \<or> (\<exists>res. run_operation fails self decision ''maintain'' = Inr res \<and> reason decision = None
                  \<and> res_status r = ''failed'' \<and> errors r = [KeyError ''reason'']
                  \<and> s' = target_state (current_state self) decision ''maintain'')
            \<or> (\<exists>res why. run_operation fails self decision ''maintain'' = Inr res
                  \<and> reason decision = Some why
                  \<and> res_status r = ''completed'' \<and> errors r = []
                  \<and> s' = (target_state (current_state self) decision ''maintain'')
                       \<lparr>scaling_events := last_n 50 (scaling_events (current_state self) @
                          [event_of now (current_state self) decision ''maintain'' why])\<rparr>)"
    by blast
  from cases show ?thesis
  proof (elim disjE exE conjE)
    fix e
    assume "run_operation fails self decision ''maintain'' = Inl e" "res_status r = ''failed''"
      "errors r = [e]" "s' = current_state self"
    with ex show ?thesis by simp
  next
    fix res
    assume "run_operation fails self decision ''maintain'' = Inr res" "reason decision = None"
      "res_status r = ''failed''" "errors r = [KeyError ''reason'']"
      "s' = target_state (current_state self) decision ''maintain''"
    with ex ts show ?thesis by simp
  next
    fix res why
    assume "run_operation fails self decision ''maintain'' = Inr res" "reason decision = Some why"
      "res_status r = ''completed''" "errors r = []"
      "s' = (target_state (current_state self) decision ''maintain'')
                       \<lparr>scaling_events := last_n 50 (scaling_events (current_state self) @
                          [event_of now (current_state self) decision ''maintain'' why])\<rparr>"
    with ex ts show ?thesis by (simp add: event_of_def simulate_scaling_time_def)
  qed
qed

text \<open>The theorem at the maintain decision of the test suite, on the manager without
  events: one event, with action maintain and 1 instance before and after.\<close>

theorem maintain_keeps_instances_and_resources_witness:
  "action maintain_decision = Some ''maintain''
   \<and> map_option instances
        (state_after (execute_scaling_decision no_faults 5 6 fresh_manager maintain_decision))
        = Some (instances (current_state fresh_manager))
   \<and> map_option resources
        (state_after (execute_scaling_decision no_faults 5 6 fresh_manager maintain_decision))
        = Some (resources (current_state fresh_manager))
   \<and> map_option scaling_events
        (state_after (execute_scaling_decision no_faults 5 6 fresh_manager maintain_decision))
        = Some [\<lparr>ev_timestamp = 5, ev_action = ''maintain'', instances_before = 1,
                 instances_after = 1, ev_reason = Text ''Test execution'',
                 execution_time = 1/2\<rparr>]"
proof -
  have a: "action maintain_decision = Some ''maintain''" by (simp add: maintain_decision_def)
  have e: "map_option scaling_events
        (state_after (execute_scaling_decision no_faults 5 6 fresh_manager maintain_decision))
        = Some [\<lparr>ev_timestamp = 5, ev_action = ''maintain'', instances_before = 1,
                 instances_after = 1, ev_reason = Text ''Test execution'',
                 execution_time = 1/2\<rparr>]" by code_simp
  from maintain_keeps_instances_and_resources [OF a, of no_faults 5 6 fresh_manager]
  obtain r self' where
    "execute_scaling_decision no_faults 5 6 fresh_manager maintain_decision = Inr (r, self')"
    "instances (current_state self') = instances (current_state fresh_manager)"
    "resources (current_state self') = resources (current_state fresh_manager)"
    by blast
  with a e show ?thesis by (simp add: state_after_def)
qed

text \<open>
  Claim C8 as it is stated fails in its last part: after a completed maintain on a
  state without events, the list of scaling events holds an event whose action is
  maintain, which records no scale_up or scale_down transition.
\<close>

theorem maintain_appends_an_event:
  "map_option res_status
     (result_after (execute_scaling_decision no_faults 5 6 fresh_manager maintain_decision))
     = Some ''completed''
   \<and> scaling_events (current_state fresh_manager) = []
   \<and> map_option (map ev_action \<circ> scaling_events)
       (state_after (execute_scaling_decision no_faults 5 6 fresh_manager maintain_decision))
       = Some [''maintain'']"
  by code_simp

text \<open>
  Claim C3. \<^verbatim>\<open>rollback_last_scaling\<close> builds a decision whose recommended instance count is
  the \<open>instances_before\<close> of the most recent event and executes it, but with the action
  rollback, which \<open>execute_scaling_decision\<close> treats as maintain. After a scale-up from 1
  to 3 instances the rollback completes, the state still has 3 instances and not the 1
  the decision names, and a rollback event is appended.
\<close>

theorem rollback_last_scaling_keeps_instances:
  "map_option rollback_status (result_after (rollback_last_scaling no_faults 20 21 scaled_manager))
     = Some ''completed''
   \<and> instances_before (last (scaling_events (current_state scaled_manager))) = 1
   \<and> map_option instances (state_after (rollback_last_scaling no_faults 20 21 scaled_manager))
       = Some 3
   \<and> map_option (map ev_action \<circ> scaling_events)
       (state_after (rollback_last_scaling no_faults 20 21 scaled_manager))
       = Some [''scale_up'', ''rollback'']"
  by code_simp

text \<open>
  Claim C7. Let a run of executions return the results \<open>rs\<close>. The scaling events after
  the run are the events before it followed by one event per completed execution, in
  the order of execution (each event carries the entry time and the action of its
  execution), cut to the last 50: the oldest are dropped first. So a list of at most 50
  events stays at most 50 after every execution, completed or failed; it is at most 50
  after any completed execution; and after 55 completed executions its length is
  exactly 50.
\<close>

theorem scaling_events_retention:
  assumes "execute_all fails self runs = Inr (rs, self')"
  shows "(\<exists>evs. map ev_timestamp evs = map res_timestamp (completed_results rs)
            \<and> map ev_action evs = map res_action (completed_results rs)
            \<and> scaling_events (current_state self') =
                (if evs = [] then scaling_events (current_state self)
                 else last_n 50 (scaling_events (current_state self) @ evs)))
       \<and> (length (scaling_events (current_state self)) \<le> 50 \<longrightarrow>
            length (scaling_events (current_state self')) \<le> 50)
       \<and> (completed_results rs \<noteq> [] \<longrightarrow> length (scaling_events (current_state self')) \<le> 50)
       \<and> (length (completed_results rs) = 55 \<longrightarrow>
            length (scaling_events (current_state self')) = 50)"
proof -
  from execute_all_events [OF assms] obtain evs where
    ts: "map ev_timestamp evs = map res_timestamp (completed_results rs)"
    and ac: "map ev_action evs = map res_action (completed_results rs)"
    and ev: "scaling_events (current_state self') =
                (if evs = [] then scaling_events (current_state self)
                 else last_n 50 (scaling_events (current_state self) @ evs))"
    by blast
  from ts have len: "length evs = length (completed_results rs)"
    by (metis length_map)
  have inv: "length (scaling_events (current_state self')) \<le> 50"
    if "length (scaling_events (current_state self)) \<le> 50"
    using that ev by (simp add: length_last_n)
  have cap: "length (scaling_events (current_state self')) \<le> 50" if "completed_results rs \<noteq> []"
    using that ev len by (auto simp add: length_last_n)
  have full: "length (scaling_events (current_state self')) = 50"
    if "length (completed_results rs) = 55"
    using that ev len by (auto simp add: length_last_n)
  from ts ac ev inv cap full show ?thesis by blast
qed

text \<open>The theorem at 55 executions that scale up and down in turn, none of whose steps
  raises: all 55 complete and 50 events remain. After the first 3 of them the events
  are those of the three executions, in their order.\<close>

theorem scaling_events_retention_witness:
  "map_option (length \<circ> completed_results)
     (result_after (execute_all no_faults fresh_manager (scaling_runs 55))) = Some 55
   \<and> map_option (length \<circ> scaling_events)
     (state_after (execute_all no_faults fresh_manager (scaling_runs 55))) = Some 50
   \<and> map_option (map ev_timestamp \<circ> scaling_events)
     (state_after (execute_all no_faults fresh_manager (scaling_runs 3))) = Some [0, 1, 2]
   \<and> map_option (map ev_action \<circ> scaling_events)
     (state_after (execute_all no_faults fresh_manager (scaling_runs 3)))
       = Some [''scale_up'', ''scale_down'', ''scale_up'']"
proof -
  have wf: "well_formed test_decision" "well_formed scale_down_decision"
    by (simp_all add: well_formed_def scale_down_decision_def test_decision_def test_resources_def)
  then have all: "\<forall>run\<in>set (scaling_runs 55). well_formed (snd (snd run))"
    by (auto simp add: scaling_runs_def)
  from execute_all_well_formed [OF all, of fresh_manager] obtain rs self' where
    run: "execute_all no_faults fresh_manager (scaling_runs 55) = Inr (rs, self')"
    and l: "length rs = length (scaling_runs 55)" and cr: "completed_results rs = rs"
    by blast
  have n: "length (completed_results rs) = 55"
    using l cr by (simp add: scaling_runs_def)
  from scaling_events_retention [OF run] n
  have "length (scaling_events (current_state self')) = 50" by blast
  moreover have "map_option (map ev_timestamp \<circ> scaling_events)
     (state_after (execute_all no_faults fresh_manager (scaling_runs 3))) = Some [0, 1, 2]"
    by code_simp
  moreover have "map_option (map ev_action \<circ> scaling_events)
     (state_after (execute_all no_faults fresh_manager (scaling_runs 3)))
       = Some [''scale_up'', ''scale_down'', ''scale_up'']"
    by code_simp
  ultimately show ?thesis using run n
    by (simp add: result_after_def state_after_def)
qed

end
